theory Spec2Isabelle
  imports Complex_Main
begin

section \<open>Request values and Python primitives\<close>

text \<open>
  The request body is the JSON document that \<^verbatim>\<open>request.json\<close> decodes. An object is
  an association list in insertion order whose first binding of a key is the effective one.
  Python floats are modelled as reals; NaN is modelled separately where the code tests for it.
\<close>

datatype json =
    JNull
  | JBool bool
  | JInt int
  | JFloat real
  | JStr string
  | JList "json list"
  | JObj "(string \<times> json) list"

datatype exn =
    KeyError string
  | TypeError string
  | AttributeError string
  | ValueError string
  | ZeroDivisionError
  | EmptyDataError
  | OtherError string

text \<open>
  A Python float is a finite number, an infinity or NaN. Finite numbers are reals: the
  rounding of an arithmetic result to the nearest double is not modelled, only what the
  arithmetic and the comparisons do with NaN, with the infinities and with a zero divisor.
\<close>

datatype pyfloat = Finite real | PosInf | NegInf | NaN

text \<open>Timestamps are \<^verbatim>\<open>datetime64[ns]\<close> values: nanoseconds since the epoch.\<close>

type_synonym timestamp = int

definition day :: int where
  "day = 86400000000000"

text \<open>A cell of a data-frame column built from the points: \<open>None\<close> is a key the point
  does not carry (pandas stores NaN), \<open>Some JNull\<close> is an explicit null.\<close>

type_synonym cell = "json option"

record prophet_config =
  interval_width :: real
  yearly_seasonality :: "bool option"
  weekly_seasonality :: "bool option"
  daily_seasonality :: "bool option"
  changepoint_prior_scale :: real
  extra_regressors :: "string list"

record fit_frame =
  ff_ds :: "timestamp option list"
  ff_y :: "cell list"
  ff_regressors :: "(string \<times> cell list) list"

record future_frame =
  fu_ds :: "timestamp list"
  fu_regressors :: "(string \<times> json) list"

record forecast_row =
  ds :: timestamp
  yhat :: real
  yhat_lower :: real
  yhat_upper :: real
  trend :: real
  yearly :: real

record forecast =
  fc_rows :: "forecast_row list"
  fc_has_yearly :: bool

text \<open>
  The forecasting engine (Prophet) and the pandas and numpy routines whose result is not
  fixed by the handlers are external: they are parameters of the model.
  \<open>fit\<close> returns the fitted model or the exception it raises,
  \<open>make_future_dataframe m periods include_history\<close> the timestamps of the frame to predict,
  \<open>predict\<close> the forecast frame.

  \<open>to_datetime col\<close> is the parser that
  \<^verbatim>\<open>pd.to_datetime(col).dt.tz_localize(None)\<close> applies to the cells of the column
  \<open>col\<close>: the format is inferred from the column, so the parse of a cell depends on the
  column it stands in (\<open>Inr None\<close> is NaT). \<open>str_to_numeric\<close> is the number a string
  parses to under \<^verbatim>\<open>pd.to_numeric\<close>, if any.

  \<open>frame_error points\<close> is the exception with which building the frame from points that
  are not all JSON objects, or reading the \<^verbatim>\<open>date\<close> column of what was built, fails
  (\<^verbatim>\<open>ValueError\<close>, \<^verbatim>\<open>TypeError\<close>, \<^verbatim>\<open>AttributeError\<close> or
  \<^verbatim>\<open>KeyError\<close>, depending on the points).

  \<open>argsort\<close> is numpy's \<^verbatim>\<open>argsort(kind="quicksort")\<close> on the timestamps without NaT:
  the positions in ascending order of the timestamps. The sort is not stable: the order of
  positions with equal timestamps is the library's.

  \<open>series_std\<close> is \<^verbatim>\<open>Series.std()\<close> on a column of the forecast frame: the sample
  standard deviation as pandas computes it in doubles, NaN below two values.
\<close>

record 'm env =
  fit :: "prophet_config \<Rightarrow> fit_frame \<Rightarrow> exn + 'm"
  make_future_dataframe :: "'m \<Rightarrow> int \<Rightarrow> bool \<Rightarrow> exn + timestamp list"
  predict :: "'m \<Rightarrow> future_frame \<Rightarrow> exn + forecast"
  to_datetime :: "cell list \<Rightarrow> cell \<Rightarrow> exn + timestamp option"
  str_to_numeric :: "string \<Rightarrow> real option"
  frame_error :: "json list \<Rightarrow> exn"
  argsort :: "timestamp list \<Rightarrow> nat list"
  series_std :: "real list \<Rightarrow> pyfloat"

subsection \<open>Diagnostics and engine calls\<close>

text \<open>The trace of a run: the engine invocations and the warning and error records of the
  logger that describe the data (informational records and the echo of an error response
  are not kept).\<close>

datatype event =
    Engine_fit prophet_config fit_frame
  | Engine_make_future int bool
  | Engine_predict future_frame
  | Warn_low_density "real option"
  | Warn_gaps_found nat
  | Warn_gap "timestamp option" "timestamp option" "int option"
  | Warn_nulls string nat
  | Warn_non_numeric string
  | Warn_strength_error exn
  | Err_length_mismatch string nat nat
  | Err_nan_values string nat

record forecast_point =
  fp_date :: timestamp
  fp_value :: real
  fp_lower :: real
  fp_upper :: real

record metadata =
  confidenceInterval :: real
  seasonalityStrength :: pyfloat
  trendStrength :: pyfloat

record demand_debug =
  dd_dataPoints :: nat
  dd_start :: timestamp
  dd_end :: timestamp
  dd_regressorsUsed :: "string list"
  dd_futurePeriods :: json
  dd_generatedRegressors :: "string list"

record demand_result =
  dr_forecast :: "forecast_point list"
  dr_locationId :: json
  dr_modelId :: json
  dr_metadata :: metadata
  dr_future_mti :: json
  dr_future_inflation :: json
  dr_debugInfo :: demand_debug

record supplier_result =
  sr_supplierId :: json
  sr_qualityForecast :: "forecast_point list"
  sr_leadTimeForecast :: "forecast_point list"
  sr_metadata :: metadata
  sr_dataPoints :: nat
  sr_start :: timestamp
  sr_end :: timestamp
  sr_futurePeriods :: json

datatype details =
    Issues "string list"
  | Message string
  | Null_rows nat
  | Coverage "real option"
  | Exception exn

datatype response =
    Error_response nat string details
  | Demand_ok demand_result
  | Supplier_ok supplier_result

text \<open>A step of a handler either goes on with a value, returns a response at once
  (\<^verbatim>\<open>return jsonify(...), 400\<close>) or raises.\<close>

datatype 'a outcome = Cont 'a | Return response | Raise exn

type_synonym 'a comp = "event list \<times> 'a outcome"

definition ret :: "'a \<Rightarrow> 'a comp" where
  "ret x = ([], Cont x)"

definition reply :: "response \<Rightarrow> 'a comp" where
  "reply r = ([], Return r)"

definition raise :: "exn \<Rightarrow> 'a comp" where
  "raise e = ([], Raise e)"

definition emit :: "event \<Rightarrow> unit comp" where
  "emit e = ([e], Cont ())"

definition lift :: "exn + 'a \<Rightarrow> 'a comp" where
  "lift r = (case r of Inl e \<Rightarrow> raise e | Inr x \<Rightarrow> ret x)"

definition bind :: "'a comp \<Rightarrow> ('a \<Rightarrow> 'b comp) \<Rightarrow> 'b comp" where
  "bind m f =
     (case m of
        (t, Cont x) \<Rightarrow> (case f x of (t', r) \<Rightarrow> (t @ t', r))
      | (t, Return r) \<Rightarrow> (t, Return r)
      | (t, Raise e) \<Rightarrow> (t, Raise e))"

definition seq :: "unit comp \<Rightarrow> 'b comp \<Rightarrow> 'b comp" where
  "seq m k = bind m (\<lambda>_. k)"

text \<open>\<^verbatim>\<open>try: ... except Exception as e: handler\<close> around a block that ends in a
  \<^verbatim>\<open>return\<close>.\<close>

definition catch :: "response comp \<Rightarrow> (exn \<Rightarrow> response) \<Rightarrow> response comp" where
  "catch m h =
     (case m of
        (t, Raise e) \<Rightarrow> (t, Return (h e))
      | (t, Cont r) \<Rightarrow> (t, Return r)
      | (t, Return r) \<Rightarrow> (t, Return r))"

subsection \<open>Operators on decoded JSON\<close>

fun type_name :: "json \<Rightarrow> string" where
  "type_name JNull = ''NoneType''"
| "type_name (JBool _) = ''bool''"
| "type_name (JInt _) = ''int''"
| "type_name (JFloat _) = ''float''"
| "type_name (JStr _) = ''str''"
| "type_name (JList _) = ''list''"
| "type_name (JObj _) = ''dict''"

datatype pytype = T_list | T_int | T_str

fun pytype_name :: "pytype \<Rightarrow> string" where
  "pytype_name T_list = ''list''"
| "pytype_name T_int = ''int''"
| "pytype_name T_str = ''str''"

text \<open>\<^verbatim>\<open>isinstance\<close>: \<^verbatim>\<open>bool\<close> is a subclass of \<^verbatim>\<open>int\<close>.\<close>

fun isinstance :: "json \<Rightarrow> pytype \<Rightarrow> bool" where
  "isinstance (JList _) T_list = True"
| "isinstance (JInt _) T_int = True"
| "isinstance (JBool _) T_int = True"
| "isinstance (JStr _) T_str = True"
| "isinstance _ _ = False"

text \<open>\<^verbatim>\<open>needle in haystack\<close> on strings: the needle starts at some position.\<close>

fun substring :: "string \<Rightarrow> string \<Rightarrow> bool" where
  "substring needle [] = (needle = [])"
| "substring needle (c # rest) =
     (take (length needle) (c # rest) = needle \<or> substring needle rest)"

text \<open>\<^verbatim>\<open>field in container\<close>: a key of a dict, a member of a list, a substring of a
  string; any other value is not iterable.\<close>

fun py_contains :: "string \<Rightarrow> json \<Rightarrow> exn + bool" where
  "py_contains field (JObj kvs) = Inr (map_of kvs field \<noteq> None)"
| "py_contains field (JList xs) = Inr (JStr field \<in> set xs)"
| "py_contains field (JStr s) = Inr (substring field s)"
| "py_contains field v = Inl (TypeError (''argument of type '' @ type_name v @ '' is not iterable''))"

text \<open>\<^verbatim>\<open>container[field]\<close> with a string subscript.\<close>

fun py_getitem :: "json \<Rightarrow> string \<Rightarrow> exn + json" where
  "py_getitem (JObj kvs) field =
     (case map_of kvs field of None \<Rightarrow> Inl (KeyError field) | Some v \<Rightarrow> Inr v)"
| "py_getitem (JList xs) field = Inl (TypeError ''list indices must be integers or slices, not str'')"
| "py_getitem (JStr s) field = Inl (TypeError ''string indices must be integers, not str'')"
| "py_getitem v field = Inl (TypeError (type_name v @ '' object is not subscriptable''))"

text \<open>\<^verbatim>\<open>data.get(field, default)\<close>: only a dict has the method.\<close>

fun py_get :: "json \<Rightarrow> string \<Rightarrow> json \<Rightarrow> exn + json" where
  "py_get (JObj kvs) field dflt =
     (case map_of kvs field of None \<Rightarrow> Inr dflt | Some v \<Rightarrow> Inr v)"
| "py_get v field dflt = Inl (AttributeError (type_name v @ '' object has no attribute get''))"

fun py_len :: "json \<Rightarrow> exn + nat" where
  "py_len (JList xs) = Inr (length xs)"
| "py_len (JStr s) = Inr (length s)"
| "py_len (JObj kvs) = Inr (length (remdups (map fst kvs)))"
| "py_len v = Inl (TypeError (''object of type '' @ type_name v @ '' has no len()''))"

section \<open>Input validation\<close>

text \<open>One round of the loop over \<^verbatim>\<open>required_fields.items()\<close>: the issues it appends.\<close>

definition check_field :: "json \<Rightarrow> string \<times> pytype \<Rightarrow> string list comp" where
  "check_field data ft =
     (case ft of (field, expected_type) \<Rightarrow>
        bind (lift (py_contains field data)) (\<lambda>present.
          if \<not> present then ret [''Missing required field: '' @ field]
          else bind (lift (py_getitem data field)) (\<lambda>v.
            if \<not> isinstance v expected_type
            then ret [''Invalid type for '' @ field @ '': expected '' @ pytype_name expected_type
                        @ '', got '' @ type_name v]
            else ret [])))"

fun check_fields :: "json \<Rightarrow> (string \<times> pytype) list \<Rightarrow> string list comp" where
  "check_fields data [] = ret []"
| "check_fields data (ft # rest) =
     bind (check_field data ft) (\<lambda>a. bind (check_fields data rest) (\<lambda>b. ret (a @ b)))"

text \<open>The loop over \<^verbatim>\<open>required_point_fields\<close> on the first point.\<close>

fun check_point_fields :: "json \<Rightarrow> string list \<Rightarrow> string list comp" where
  "check_point_fields sample_point [] = ret []"
| "check_point_fields sample_point (field # rest) =
     bind (lift (py_contains field sample_point)) (\<lambda>present.
       bind (check_point_fields sample_point rest) (\<lambda>b.
         ret ((if present then [] else [''Missing required field in historicalData points: '' @ field]) @ b)))"

text \<open>The part both validators share, after the table of required fields: the empty-array
  check and the check of the first point, each only when no issue was found so far.
  When there is no issue, \<^verbatim>\<open>historicalData\<close> is a list.\<close>

definition validate_with :: "(string \<times> pytype) list \<Rightarrow> string list \<Rightarrow> json \<Rightarrow> string list comp" where
  "validate_with required_fields required_point_fields data =
     bind (check_fields data required_fields) (\<lambda>issues.
       if issues \<noteq> [] then ret issues
       else bind (lift (py_getitem data ''historicalData'')) (\<lambda>h.
         case h of
           JList [] \<Rightarrow> ret [''historicalData array is empty'']
         | JList (sample_point # _) \<Rightarrow> check_point_fields sample_point required_point_fields
         | _ \<Rightarrow> raise (TypeError ''historicalData'')))"

definition validate_demand_input :: "json \<Rightarrow> string list comp" where
  "validate_demand_input data =
     validate_with [(''historicalData'', T_list), (''futurePeriods'', T_int)] [''date'', ''demand''] data"

definition validate_supplier_performance_input :: "json \<Rightarrow> string list comp" where
  "validate_supplier_performance_input data =
     validate_with [(''historicalData'', T_list), (''futurePeriods'', T_int), (''supplierId'', T_str)]
       [''date'', ''qualityRating'', ''leadTimeReliability''] data"

section \<open>Data frames\<close>

text \<open>
  The frame \<^verbatim>\<open>pd.DataFrame(historical_data)\<close>, column by column: \<open>df_cols\<close> holds one
  column for every key that some point carries, in order of first appearance, and \<open>df_ds\<close>
  the parsed \<^verbatim>\<open>ds\<close> column. Row labels are the positions \<open>0, 1, ...\<close> of the points in the
  request.
\<close>

record data_frame =
  df_ds :: "timestamp option list"
  df_cols :: "(string \<times> cell list) list"

fun fields :: "json \<Rightarrow> (string \<times> json) list option" where
  "fields (JObj kvs) = Some kvs"
| "fields _ = None"

definition has_column :: "data_frame \<Rightarrow> string \<Rightarrow> bool" where
  "has_column df c = (map_of (df_cols df) c \<noteq> None)"

definition column :: "data_frame \<Rightarrow> string \<Rightarrow> exn + cell list" where
  "column df c = (case map_of (df_cols df) c of None \<Rightarrow> Inl (KeyError c) | Some col \<Rightarrow> Inr col)"

definition set_column :: "string \<Rightarrow> cell list \<Rightarrow> (string \<times> cell list) list \<Rightarrow> (string \<times> cell list) list" where
  "set_column c col cols =
     (if map_of cols c = None then cols @ [(c, col)]
      else map (\<lambda>(k, v). if k = c then (k, col) else (k, v)) cols)"

fun map_raising :: "('a \<Rightarrow> exn + 'b) \<Rightarrow> 'a list \<Rightarrow> 'b list comp" where
  "map_raising f [] = ret []"
| "map_raising f (x # xs) =
     bind (lift (f x)) (\<lambda>y. bind (map_raising f xs) (\<lambda>ys. ret (y # ys)))"

text \<open>
  \<^verbatim>\<open>df = pd.DataFrame(historical_data); df["ds"] = pd.to_datetime(df["date"])...\<close>.
  From a list whose points are not all objects no frame with a \<^verbatim>\<open>date\<close> column
  comes: either the constructor raises or \<^verbatim>\<open>df["date"]\<close> does, with the exception
  \<open>frame_error\<close>. When all points are objects and none has the key,
  \<^verbatim>\<open>df["date"]\<close> raises \<^verbatim>\<open>KeyError\<close>.
\<close>

definition build_frame :: "'m env \<Rightarrow> json list \<Rightarrow> data_frame comp" where
  "build_frame env historical_data =
     (if list_ex (\<lambda>p. fields p = None) historical_data
      then raise (frame_error env historical_data)
      else
        let rows = map (\<lambda>p. the (fields p)) historical_data;
            names = rev (remdups (rev (concat (map (map fst) rows))));
            cols = map (\<lambda>c. (c, map (\<lambda>row. map_of row c) rows)) names
        in case map_of cols ''date'' of
             None \<Rightarrow> raise (KeyError ''date'')
           | Some dates \<Rightarrow>
               bind (map_raising (to_datetime env dates) dates) (\<lambda>tss.
                 ret \<lparr>df_ds = tss, df_cols = cols\<rparr>))"

text \<open>\<^verbatim>\<open>df["y"] = df[name]\<close>\<close>

definition assign_y :: "string \<Rightarrow> data_frame \<Rightarrow> data_frame comp" where
  "assign_y name df =
     bind (lift (column df name)) (\<lambda>col. ret (df\<lparr>df_cols := set_column ''y'' col (df_cols df)\<rparr>))"

subsection \<open>Null and numeric cells\<close>

fun is_null :: "cell \<Rightarrow> bool" where
  "is_null None = True"
| "is_null (Some JNull) = True"
| "is_null _ = False"

text \<open>\<^verbatim>\<open>pd.to_numeric(..., errors="coerce")\<close> on one cell; \<open>None\<close> is NaN.\<close>

fun to_numeric :: "'m env \<Rightarrow> cell \<Rightarrow> real option" where
  "to_numeric env (Some (JInt i)) = Some (of_int i)"
| "to_numeric env (Some (JFloat r)) = Some r"
| "to_numeric env (Some (JBool b)) = Some (if b then 1 else 0)"
| "to_numeric env (Some (JStr s)) = str_to_numeric env s"
| "to_numeric env _ = None"

text \<open>\<^verbatim>\<open>pd.to_numeric(..., errors="coerce").notnull()\<close> on one cell.\<close>

definition is_numeric :: "'m env \<Rightarrow> cell \<Rightarrow> bool" where
  "is_numeric env c = (case to_numeric env c of None \<Rightarrow> False | Some _ \<Rightarrow> True)"

subsection \<open>Density\<close>

definition ts_values :: "timestamp option list \<Rightarrow> timestamp list" where
  "ts_values tss = List.map_filter id tss"

text \<open>\<^verbatim>\<open>df["ds"].max()\<close> and \<^verbatim>\<open>.min()\<close> skip NaT and are NaT when nothing is left.\<close>

definition ds_max :: "timestamp option list \<Rightarrow> timestamp option" where
  "ds_max tss = (case ts_values tss of [] \<Rightarrow> None | t # ts \<Rightarrow> Some (fold max ts t))"

definition ds_min :: "timestamp option list \<Rightarrow> timestamp option" where
  "ds_min tss = (case ts_values tss of [] \<Rightarrow> None | t # ts \<Rightarrow> Some (fold min ts t))"

text \<open>\<^verbatim>\<open>(df["ds"].max() - df["ds"].min()).days\<close>: whole days, NaN for NaT.\<close>

definition date_range :: "data_frame \<Rightarrow> int option" where
  "date_range df =
     (case (ds_max (df_ds df), ds_min (df_ds df)) of
        (Some hi, Some lo) \<Rightarrow> Some ((hi - lo) div day)
      | _ \<Rightarrow> None)"

text \<open>
  \<^verbatim>\<open>expected_points = date_range + 1; density = len(df) / expected_points\<close>.
  The quotient is the exact one; \<open>None\<close> is NaN.
\<close>

definition density :: "data_frame \<Rightarrow> real option" where
  "density df =
     (case date_range df of
        None \<Rightarrow> None
      | Some d \<Rightarrow> Some (real (length (df_ds df)) / real_of_int (d + 1)))"

text \<open>\<^verbatim>\<open>density < 0.7\<close>; a comparison with NaN is false.\<close>

definition below_threshold :: "real option \<Rightarrow> bool" where
  "below_threshold d = (case d of None \<Rightarrow> False | Some x \<Rightarrow> x < 7 / 10)"

subsection \<open>Gaps\<close>

text \<open>
  \<^verbatim>\<open>df.sort_values("ds")\<close>, as the rows \<open>(label, ds)\<close>. pandas sorts the rows that
  have a timestamp with \<^verbatim>\<open>argsort\<close> (the default kind, \<^verbatim>\<open>quicksort\<close>) and puts the
  rows with NaT after them, in request order. A position outside the column, which numpy
  does not return, selects no row.
\<close>

definition sort_values :: "'m env \<Rightarrow> timestamp option list \<Rightarrow> (int \<times> timestamp option) list" where
  "sort_values env tss =
     (let rows = zip (map int [0 ..< length tss]) tss;
          non_nans = filter (\<lambda>r. snd r \<noteq> None) rows;
          nans = filter (\<lambda>r. snd r = None) rows;
          indexer = filter (\<lambda>i. i < length non_nans) (argsort env (map (\<lambda>r. the (snd r)) non_nans))
      in map (\<lambda>i. non_nans ! i) indexer @ nans)"

definition ts_minus :: "timestamp option \<Rightarrow> timestamp option \<Rightarrow> int option" where
  "ts_minus a b = (case (a, b) of (Some x, Some y) \<Rightarrow> Some (x - y) | _ \<Rightarrow> None)"

fun diff_from :: "timestamp option \<Rightarrow> (int \<times> timestamp option) list \<Rightarrow> (int \<times> int option) list" where
  "diff_from prev [] = []"
| "diff_from prev ((l, t) # rest) = (l, ts_minus t prev) # diff_from t rest"

text \<open>\<^verbatim>\<open>df_sorted["ds"].diff()\<close>: the first row has no predecessor.\<close>

definition diff :: "(int \<times> timestamp option) list \<Rightarrow> (int \<times> int option) list" where
  "diff rows = (case rows of [] \<Rightarrow> [] | (l, t) # rest \<Rightarrow> (l, None) # diff_from t rest)"

text \<open>\<^verbatim>\<open>gaps[gaps > pd.Timedelta(days=7)]\<close>\<close>

definition large_gaps :: "(int \<times> timestamp option) list \<Rightarrow> (int \<times> int option) list" where
  "large_gaps df_sorted =
     filter (\<lambda>g. case snd g of None \<Rightarrow> False | Some d \<Rightarrow> d > 7 * day) (diff df_sorted)"

text \<open>\<^verbatim>\<open>df_sorted.loc[label, "ds"]\<close>\<close>

definition loc :: "(int \<times> timestamp option) list \<Rightarrow> int \<Rightarrow> exn + timestamp option" where
  "loc df_sorted label =
     (case map_of df_sorted label of None \<Rightarrow> Inl (KeyError ''label'') | Some t \<Rightarrow> Inr t)"

definition days :: "int option \<Rightarrow> int option" where
  "days d = map_option (\<lambda>x. x div day) d"

text \<open>The loop of the demand handler over \<^verbatim>\<open>large_gaps.index\<close>.\<close>

fun log_each_gap :: "(int \<times> timestamp option) list \<Rightarrow> int list \<Rightarrow> unit comp" where
  "log_each_gap df_sorted [] = ret ()"
| "log_each_gap df_sorted (idx # rest) =
     bind (lift (loc df_sorted (idx - 1))) (\<lambda>gap_start.
     bind (lift (loc df_sorted idx)) (\<lambda>gap_end.
       seq (emit (Warn_gap gap_start gap_end (days (ts_minus gap_end gap_start))))
           (log_each_gap df_sorted rest)))"

definition log_gaps_demand :: "'m env \<Rightarrow> data_frame \<Rightarrow> unit comp" where
  "log_gaps_demand env df =
     (let df_sorted = sort_values env (df_ds df);
          lg = large_gaps df_sorted
      in if lg \<noteq> []
         then seq (emit (Warn_gaps_found (length lg))) (log_each_gap df_sorted (map fst lg))
         else ret ())"

definition log_gaps_supplier :: "'m env \<Rightarrow> data_frame \<Rightarrow> unit comp" where
  "log_gaps_supplier env df =
     (let df_sorted = sort_values env (df_ds df);
          lg = large_gaps df_sorted
      in if lg \<noteq> [] then emit (Warn_gaps_found (length lg)) else ret ())"

section \<open>The forecasting engine\<close>

text \<open>The defaults of the \<^verbatim>\<open>Prophet\<close> constructor for the arguments the handlers set.\<close>

definition default_config :: prophet_config where
  "default_config =
     \<lparr>interval_width = 8 / 10, yearly_seasonality = None, weekly_seasonality = None,
      daily_seasonality = None, changepoint_prior_scale = 5 / 100, extra_regressors = []\<rparr>"

definition engine_fit :: "'m env \<Rightarrow> prophet_config \<Rightarrow> fit_frame \<Rightarrow> 'm comp" where
  "engine_fit env cfg frame = seq (emit (Engine_fit cfg frame)) (lift (fit env cfg frame))"

definition engine_make_future :: "'m env \<Rightarrow> 'm \<Rightarrow> int \<Rightarrow> bool \<Rightarrow> timestamp list comp" where
  "engine_make_future env m periods include_history =
     seq (emit (Engine_make_future periods include_history))
         (lift (make_future_dataframe env m periods include_history))"

definition engine_predict :: "'m env \<Rightarrow> 'm \<Rightarrow> future_frame \<Rightarrow> forecast comp" where
  "engine_predict env m future = seq (emit (Engine_predict future)) (lift (predict env m future))"

section \<open>Regressor projection\<close>

fun truthy :: "json \<Rightarrow> bool" where
  "truthy JNull = False"
| "truthy (JBool b) = b"
| "truthy (JInt i) = (i \<noteq> 0)"
| "truthy (JFloat r) = (r \<noteq> 0)"
| "truthy (JStr s) = (s \<noteq> [])"
| "truthy (JList xs) = (xs \<noteq> [])"
| "truthy (JObj kvs) = (kvs \<noteq> [])"

fun num_value :: "json \<Rightarrow> real option" where
  "num_value (JInt i) = Some (of_int i)"
| "num_value (JFloat r) = Some r"
| "num_value (JBool b) = Some (if b then 1 else 0)"
| "num_value _ = None"

text \<open>One cell of \<^verbatim>\<open>historical_df["locationId"] == location_id\<close>: numbers compare by
  value, a missing cell equals nothing.\<close>

definition cell_equals :: "cell \<Rightarrow> json \<Rightarrow> bool" where
  "cell_equals c v =
     (case c of
        None \<Rightarrow> False
      | Some x \<Rightarrow>
          (case (num_value x, num_value v) of
             (Some a, Some b) \<Rightarrow> a = b
           | (None, None) \<Rightarrow> x = v \<and> x \<noteq> JNull
           | _ \<Rightarrow> False))"

definition select_rows :: "bool list \<Rightarrow> data_frame \<Rightarrow> data_frame" where
  "select_rows keep df =
     \<lparr>df_ds = map snd (filter fst (zip keep (df_ds df))),
      df_cols = map (\<lambda>(c, col). (c, map snd (filter fst (zip keep col)))) (df_cols df)\<rparr>"

text \<open>\<^verbatim>\<open>forecast[forecast["ds"] > prophet_df["ds"].max()]["yhat"].tolist()\<close>\<close>

definition future_values :: "timestamp option \<Rightarrow> forecast \<Rightarrow> real list" where
  "future_values last_ds fc =
     map yhat (filter (\<lambda>r. case last_ds of None \<Rightarrow> False | Some t \<Rightarrow> ds r > t) (fc_rows fc))"

text \<open>The first step of \<^verbatim>\<open>predict_regressor\<close>: the rows of the location, when a
  location is given and the frame has a \<^verbatim>\<open>locationId\<close> column, and all rows otherwise.\<close>

definition scope_to_location :: "data_frame \<Rightarrow> json \<Rightarrow> data_frame" where
  "scope_to_location historical_df location_id =
     (if truthy location_id \<and> has_column historical_df ''locationId''
      then select_rows
             (map (\<lambda>c. cell_equals c location_id)
                (the (map_of (df_cols historical_df) ''locationId'')))
             historical_df
      else historical_df)"

text \<open>\<^verbatim>\<open>Prophet(yearly_seasonality=True)\<close>, the model of a regressor.\<close>

definition projection_config :: prophet_config where
  "projection_config = default_config\<lparr>yearly_seasonality := Some True\<rparr>"

definition predict_regressor ::
    "'m env \<Rightarrow> data_frame \<Rightarrow> string \<Rightarrow> int \<Rightarrow> json \<Rightarrow> real list comp" where
  "predict_regressor env historical_df regressor_name periods location_id =
     (let df = scope_to_location historical_df location_id
      in bind (lift (column df regressor_name)) (\<lambda>y.
         let prophet_df = \<lparr>ff_ds = df_ds df, ff_y = y, ff_regressors = []\<rparr>
         in bind (engine_fit env projection_config prophet_df) (\<lambda>model.
            bind (engine_make_future env model periods True) (\<lambda>future.
            bind (engine_predict env model \<lparr>fu_ds = future, fu_regressors = []\<rparr>) (\<lambda>forecast.
              ret (future_values (ds_max (ff_ds prophet_df)) forecast))))))"

text \<open>\<^verbatim>\<open>df[["ds", "mti"]].drop_duplicates()\<close>: the first row of each value pair is
  kept; in the numeric column an integer equals the float of the same value, and a null is NaN.\<close>

fun norm_cell :: "cell \<Rightarrow> cell" where
  "norm_cell (Some (JInt i)) = Some (JFloat (of_int i))"
| "norm_cell (Some JNull) = None"
| "norm_cell c = c"

fun drop_duplicates :: "('a \<times> cell) list \<Rightarrow> ('a \<times> cell) list \<Rightarrow> ('a \<times> cell) list" where
  "drop_duplicates seen [] = []"
| "drop_duplicates seen ((t, c) # rest) =
     (if (t, norm_cell c) \<in> set seen then drop_duplicates seen rest
      else (t, c) # drop_duplicates ((t, norm_cell c) # seen) rest)"

text \<open>\<^verbatim>\<open>int\<close> values of the request: \<^verbatim>\<open>True\<close> is \<open>1\<close>.\<close>

fun as_periods :: "json \<Rightarrow> exn + int" where
  "as_periods (JInt i) = Inr i"
| "as_periods (JBool b) = Inr (if b then 1 else 0)"
| "as_periods v = Inl (TypeError (type_name v))"

text \<open>The MTI branch of the demand handler: the names added to \<^verbatim>\<open>regressors_added\<close>
  and the entries added to \<^verbatim>\<open>future_regressors\<close>.\<close>

definition project_mti :: "'m env \<Rightarrow> data_frame \<Rightarrow> int \<Rightarrow> (string \<times> json) list comp" where
  "project_mti env df future_periods =
     (let pairs = drop_duplicates [] (zip (df_ds df) (the (map_of (df_cols df) ''mti'')));
          all_mti_data = \<lparr>df_ds = map fst pairs, df_cols = [(''mti'', map snd pairs)]\<rparr>
      in bind (predict_regressor env all_mti_data ''mti'' future_periods JNull) (\<lambda>vs.
           ret [(''mti'', JList (map JFloat vs))]))"

definition handle_mti :: "'m env \<Rightarrow> json \<Rightarrow> data_frame \<Rightarrow> int \<Rightarrow> (string \<times> json) list comp" where
  "handle_mti env data df future_periods =
     (if has_column df ''mti'' then
        bind (lift (py_contains ''futureRegressors'' data)) (\<lambda>given.
          if given then
            bind (lift (py_getitem data ''futureRegressors'')) (\<lambda>fr.
            bind (lift (py_contains ''mti'' fr)) (\<lambda>given_mti.
              if given_mti then bind (lift (py_getitem fr ''mti'')) (\<lambda>v. ret [(''mti'', v)])
              else project_mti env df future_periods))
          else project_mti env df future_periods)
      else ret [])"

text \<open>The inflation branch: always projected, for the request's location.\<close>

definition handle_inflation :: "'m env \<Rightarrow> data_frame \<Rightarrow> int \<Rightarrow> json \<Rightarrow> (string \<times> json) list comp" where
  "handle_inflation env df future_periods location_id =
     (if has_column df ''inflation'' then
        bind (predict_regressor env df ''inflation'' future_periods location_id) (\<lambda>vs.
          ret [(''inflation'', JList (map JFloat vs))])
      else ret [])"

text \<open>
  The loop that adds the future regressors to the future frame of \<open>n\<close> rows. Assigning a
  list of another length to a column raises \<^verbatim>\<open>ValueError\<close> in pandas; a value that is not
  a list is stored as it is. The NaN count of a list is the number of its nulls.
\<close>

fun attach_regressors :: "nat \<Rightarrow> (string \<times> json) list \<Rightarrow> unit comp" where
  "attach_regressors n [] = ret ()"
| "attach_regressors n ((regressor_name, regressor_values) # rest) =
     bind (lift (py_len regressor_values)) (\<lambda>l.
       seq (if l \<noteq> n then emit (Err_length_mismatch regressor_name l n) else ret ())
      (seq (case regressor_values of
              JList vs \<Rightarrow> if length vs \<noteq> n
                          then raise (ValueError ''Length of values does not match length of index'')
                          else ret ()
            | _ \<Rightarrow> ret ())
      (seq (case regressor_values of
              JList vs \<Rightarrow> if length (filter (\<lambda>v. v = JNull) vs) > 0
                          then emit (Err_nan_values regressor_name (length (filter (\<lambda>v. v = JNull) vs)))
                          else ret ()
            | _ \<Rightarrow> ret ())
           (attach_regressors n rest))))"

section \<open>Strength metrics\<close>

subsection \<open>Float arithmetic\<close>

text \<open>\<^verbatim>\<open>pd.notnull(x)\<close> on a float.\<close>

definition notnull :: "pyfloat \<Rightarrow> bool" where
  "notnull x = (x \<noteq> NaN)"

text \<open>\<^verbatim>\<open>x < y\<close>: false when either side is NaN.\<close>

fun py_less :: "pyfloat \<Rightarrow> pyfloat \<Rightarrow> bool" where
  "py_less (Finite a) (Finite b) = (a < b)"
| "py_less (Finite a) PosInf = True"
| "py_less NegInf (Finite b) = True"
| "py_less NegInf PosInf = True"
| "py_less _ _ = False"

text \<open>\<^verbatim>\<open>a / b\<close>. A zero divisor raises \<^verbatim>\<open>ZeroDivisionError\<close>, as it does for
  Python floats (for numpy's \<^verbatim>\<open>float64\<close> the result is an infinity or NaN, with a
  warning); the handlers divide only behind the guard \<^verbatim>\<open>yhat_std > 0\<close>.\<close>

fun py_div :: "pyfloat \<Rightarrow> pyfloat \<Rightarrow> exn + pyfloat" where
  "py_div a (Finite b) =
     (if b = 0 then Inl ZeroDivisionError
      else Inr (case a of
                  Finite x \<Rightarrow> Finite (x / b)
                | PosInf \<Rightarrow> if 0 < b then PosInf else NegInf
                | NegInf \<Rightarrow> if 0 < b then NegInf else PosInf
                | NaN \<Rightarrow> NaN))"
| "py_div (Finite x) PosInf = Inr (Finite 0)"
| "py_div (Finite x) NegInf = Inr (Finite 0)"
| "py_div a b = Inr NaN"

fun py_abs :: "pyfloat \<Rightarrow> pyfloat" where
  "py_abs (Finite x) = Finite \<bar>x\<bar>"
| "py_abs PosInf = PosInf"
| "py_abs NegInf = PosInf"
| "py_abs NaN = NaN"

fun py_add :: "pyfloat \<Rightarrow> pyfloat \<Rightarrow> pyfloat" where
  "py_add (Finite a) (Finite b) = Finite (a + b)"
| "py_add NaN b = NaN"
| "py_add a NaN = NaN"
| "py_add PosInf NegInf = NaN"
| "py_add NegInf PosInf = NaN"
| "py_add PosInf b = PosInf"
| "py_add a PosInf = PosInf"
| "py_add NegInf b = NegInf"
| "py_add a NegInf = NegInf"

text \<open>\<^verbatim>\<open>min(a, b)\<close> of the Python built-in: the first argument, unless the second is
  smaller. With a NaN no comparison holds, and the result is the first argument.\<close>

definition py_min :: "pyfloat \<Rightarrow> pyfloat \<Rightarrow> pyfloat" where
  "py_min a b = (if py_less b a then b else a)"

subsection \<open>The strength blocks\<close>

text \<open>\<^verbatim>\<open>forecast["yearly"]\<close>\<close>

definition yearly_column :: "forecast \<Rightarrow> exn + real list" where
  "yearly_column fc = (if fc_has_yearly fc then Inr (map yearly (fc_rows fc)) else Inl (KeyError ''yearly''))"

text \<open>The guard of every strength:
  \<^verbatim>\<open>pd.notnull(c_std) and pd.notnull(yhat_std) and yhat_std > 0\<close>.\<close>

definition usable :: "pyfloat \<Rightarrow> pyfloat \<Rightarrow> bool" where
  "usable c_std yhat_std \<longleftrightarrow> notnull c_std \<and> notnull yhat_std \<and> py_less (Finite 0) yhat_std"

text \<open>\<^verbatim>\<open>abs(c_std / yhat_std) if ... else 0.0\<close>, of the demand handler.\<close>

definition strength :: "pyfloat \<Rightarrow> pyfloat \<Rightarrow> pyfloat comp" where
  "strength c_std yhat_std =
     (if usable c_std yhat_std
      then bind (lift (py_div c_std yhat_std)) (\<lambda>q. ret (py_abs q))
      else ret (Finite 0))"

text \<open>\<^verbatim>\<open>min(1.0, abs(c_std / yhat_std)) if ... else 0.0\<close>, of the supplier handler.\<close>

definition capped_strength :: "pyfloat \<Rightarrow> pyfloat \<Rightarrow> pyfloat comp" where
  "capped_strength c_std yhat_std =
     (if usable c_std yhat_std
      then bind (lift (py_div c_std yhat_std)) (\<lambda>q. ret (py_min (Finite 1) (py_abs q)))
      else ret (Finite 0))"

text \<open>\<^verbatim>\<open>try: ... except Exception as e: handler\<close> around a block that computes a value.\<close>

definition recover :: "'a comp \<Rightarrow> (exn \<Rightarrow> 'a comp) \<Rightarrow> 'a comp" where
  "recover m h =
     (case m of
        (t, Raise e) \<Rightarrow> (case h e of (t', r) \<Rightarrow> (t @ t', r))
      | other \<Rightarrow> other)"

text \<open>The strength block of the demand handler: \<open>(seasonality_strength, trend_strength)\<close>.\<close>

definition demand_strengths :: "'m env \<Rightarrow> forecast \<Rightarrow> (pyfloat \<times> pyfloat) comp" where
  "demand_strengths env fc =
     recover
       (bind (lift (yearly_column fc)) (\<lambda>yearly_col.
          let yearly_std = series_std env yearly_col;
              yhat_std = series_std env (map yhat (fc_rows fc));
              trend_std = series_std env (map trend (fc_rows fc))
          in bind (strength yearly_std yhat_std) (\<lambda>seasonality_strength.
             bind (strength trend_std yhat_std) (\<lambda>trend_strength.
               ret (seasonality_strength, trend_strength)))))
       (\<lambda>e. seq (emit (Warn_strength_error e)) (ret (Finite 0, Finite 0)))"

text \<open>The strength block of the supplier handler: each ratio is capped at \<open>1.0\<close>, and the
  two quantities are averaged.\<close>

definition supplier_strengths :: "'m env \<Rightarrow> forecast \<Rightarrow> forecast \<Rightarrow> (pyfloat \<times> pyfloat) comp" where
  "supplier_strengths env quality_fc lead_time_fc =
     recover
       (bind (lift (yearly_column quality_fc)) (\<lambda>quality_yearly.
          let quality_yearly_std = series_std env quality_yearly;
              quality_yhat_std = series_std env (map yhat (fc_rows quality_fc));
              quality_trend_std = series_std env (map trend (fc_rows quality_fc))
          in bind (lift (yearly_column lead_time_fc)) (\<lambda>lead_time_yearly.
          let lead_time_yearly_std = series_std env lead_time_yearly;
              lead_time_yhat_std = series_std env (map yhat (fc_rows lead_time_fc));
              lead_time_trend_std = series_std env (map trend (fc_rows lead_time_fc))
          in bind (capped_strength quality_yearly_std quality_yhat_std) (\<lambda>quality_seasonality_strength.
             bind (capped_strength quality_trend_std quality_yhat_std) (\<lambda>quality_trend_strength.
             bind (capped_strength lead_time_yearly_std lead_time_yhat_std) (\<lambda>lead_time_seasonality_strength.
             bind (capped_strength lead_time_trend_std lead_time_yhat_std) (\<lambda>lead_time_trend_strength.
             bind (lift (py_div (py_add quality_seasonality_strength lead_time_seasonality_strength)
                           (Finite 2))) (\<lambda>seasonality_strength.
             bind (lift (py_div (py_add quality_trend_strength lead_time_trend_strength)
                           (Finite 2))) (\<lambda>trend_strength.
               ret (seasonality_strength, trend_strength))))))))))
       (\<lambda>e. seq (emit (Warn_strength_error e)) (ret (Finite 0, Finite 0)))"

section \<open>The two operations\<close>

subsection \<open>Exception handlers\<close>

text \<open>The \<^verbatim>\<open>except\<close> clauses of the inner \<^verbatim>\<open>try\<close>, in their order
  (\<^verbatim>\<open>EmptyDataError\<close>, \<^verbatim>\<open>ValueError\<close>, \<^verbatim>\<open>Exception\<close>), and the outer one.\<close>

fun data_processing_handler :: "exn \<Rightarrow> response" where
  "data_processing_handler EmptyDataError =
     Error_response 400 ''Empty dataset provided''
       (Message ''The historical data array contains no valid data points'')"
| "data_processing_handler (ValueError msg) =
     Error_response 400 ''Data processing error'' (Exception (ValueError msg))"
| "data_processing_handler e =
     Error_response 500 ''Unexpected error during data processing'' (Exception e)"

definition fatal_handler :: "exn \<Rightarrow> response" where
  "fatal_handler e = Error_response 500 ''Fatal error'' (Exception e)"

definition respond :: "response comp \<Rightarrow> (exn \<Rightarrow> response) \<Rightarrow> event list \<times> response" where
  "respond m h =
     (case m of
        (t, Raise e) \<Rightarrow> (t, h e)
      | (t, Cont r) \<Rightarrow> (t, r)
      | (t, Return r) \<Rightarrow> (t, r))"

text \<open>The first \<^verbatim>\<open>logger.info\<close> of a handler evaluates
  \<^verbatim>\<open>len(data.get('historicalData', []))\<close>.\<close>

definition log_request :: "json \<Rightarrow> unit comp" where
  "log_request data =
     bind (lift (py_get data ''historicalData'' (JList []))) (\<lambda>h.
     bind (lift (py_len h)) (\<lambda>_. ret ()))"

definition frame_of :: "'m env \<Rightarrow> json \<Rightarrow> data_frame comp" where
  "frame_of env historical_data =
     (case historical_data of
        JList points \<Rightarrow> build_frame env points
      | _ \<Rightarrow> raise (TypeError ''historicalData''))"

text \<open>\<^verbatim>\<open>Timestamp.strftime\<close> raises \<^verbatim>\<open>ValueError\<close> on NaT; the date is kept as the
  timestamp it formats.\<close>

definition strftime :: "timestamp option \<Rightarrow> exn + timestamp" where
  "strftime t =
     (case t of None \<Rightarrow> Inl (ValueError ''NaTType does not support strftime'') | Some x \<Rightarrow> Inr x)"

subsection \<open>Demand forecast\<close>

text \<open>The two data quality checks on \<^verbatim>\<open>df["y"]\<close>.\<close>

definition check_demand_values :: "'m env \<Rightarrow> data_frame \<Rightarrow> unit comp" where
  "check_demand_values env df =
     bind (lift (column df ''y'')) (\<lambda>y.
       if list_ex is_null y
       then reply (Error_response 400 ''Missing demand values detected''
                     (Null_rows (length (filter is_null y))))
       else if \<not> list_all (is_numeric env) y
       then reply (Error_response 400 ''Non-numeric demand values detected''
                     (Message ''All demand values must be numeric''))
       else ret ())"

definition check_density_demand :: "data_frame \<Rightarrow> unit comp" where
  "check_density_demand df =
     (if below_threshold (density df)
      then reply (Error_response 400 ''Insufficient data density'' (Coverage (density df)))
      else ret ())"

definition forecast_point_of :: "forecast_row \<Rightarrow> forecast_point" where
  "forecast_point_of row =
     \<lparr>fp_date = ds row, fp_value = yhat row, fp_lower = yhat_lower row, fp_upper = yhat_upper row\<rparr>"

text \<open>\<^verbatim>\<open>future_regressors.get(name, [])\<close>\<close>

definition get_or_empty :: "(string \<times> json) list \<Rightarrow> string \<Rightarrow> json" where
  "get_or_empty future_regressors name =
     (case map_of future_regressors name of None \<Rightarrow> JList [] | Some v \<Rightarrow> v)"

text \<open>\<^verbatim>\<open>Prophet(interval_width=0.95)\<close> with the regressors added to it.\<close>

definition demand_config :: "string list \<Rightarrow> prophet_config" where
  "demand_config regressors_added =
     default_config\<lparr>interval_width := 95 / 100, extra_regressors := regressors_added\<rparr>"

text \<open>From the fit of the demand model to the response, with the future regressors
  resolved.\<close>

definition demand_model ::
    "'m env \<Rightarrow> data_frame \<Rightarrow> json \<Rightarrow> json \<Rightarrow> json \<Rightarrow> int \<Rightarrow> (string \<times> json) list
       \<Rightarrow> response comp" where
  "demand_model env df location_id model_id future_periods periods future_regressors =
     (let regressors_added = map fst future_regressors
     in
     bind (lift (column df ''y'')) (\<lambda>y.
     bind (engine_fit env (demand_config regressors_added)
             \<lparr>ff_ds = df_ds df, ff_y = y,
              ff_regressors = filter (\<lambda>c. fst c \<in> set regressors_added) (df_cols df)\<rparr>) (\<lambda>model.
     bind (engine_make_future env model periods False) (\<lambda>future.
     seq (attach_regressors (length future) future_regressors)
    (bind (engine_predict env model \<lparr>fu_ds = future, fu_regressors = future_regressors\<rparr>) (\<lambda>forecast.
     bind (demand_strengths env forecast) (\<lambda>strengths.
     bind (lift (strftime (ds_min (df_ds df)))) (\<lambda>start.
     bind (lift (strftime (ds_max (df_ds df)))) (\<lambda>end.
       ret (Demand_ok
         \<lparr>dr_forecast = map forecast_point_of (fc_rows forecast),
          dr_locationId = location_id,
          dr_modelId = model_id,
          dr_metadata =
            \<lparr>confidenceInterval = 95 / 100,
             seasonalityStrength = py_min (fst strengths) (Finite 1),
             trendStrength = py_min (snd strengths) (Finite 1)\<rparr>,
          dr_future_mti = get_or_empty future_regressors ''mti'',
          dr_future_inflation = get_or_empty future_regressors ''inflation'',
          dr_debugInfo =
            \<lparr>dd_dataPoints = length (df_ds df),
             dd_start = start,
             dd_end = end,
             dd_regressorsUsed = regressors_added,
             dd_futurePeriods = future_periods,
             dd_generatedRegressors = map fst future_regressors\<rparr>\<rparr>))))))))))"

text \<open>The regressors are resolved first, MTI before inflation.\<close>

definition demand_forecast ::
    "'m env \<Rightarrow> json \<Rightarrow> data_frame \<Rightarrow> json \<Rightarrow> json \<Rightarrow> response comp" where
  "demand_forecast env data df location_id model_id =
     bind (lift (py_get data ''futurePeriods'' (JInt 90))) (\<lambda>future_periods.
     bind (lift (as_periods future_periods)) (\<lambda>periods.
     bind (handle_mti env data df periods) (\<lambda>mti.
     bind (handle_inflation env df periods location_id) (\<lambda>inflation.
       demand_model env df location_id model_id future_periods periods (mti @ inflation)))))"

text \<open>The body of the inner \<^verbatim>\<open>try\<close>.\<close>

definition demand_body :: "'m env \<Rightarrow> json \<Rightarrow> json \<Rightarrow> json \<Rightarrow> json \<Rightarrow> response comp" where
  "demand_body env data historical_data location_id model_id =
     bind (frame_of env historical_data) (\<lambda>df0.
     bind (assign_y ''demand'' df0) (\<lambda>df.
     seq (check_demand_values env df)
    (seq (check_density_demand df)
    (seq (log_gaps_demand env df)
         (demand_forecast env data df location_id model_id)))))"

definition predict_demand :: "'m env \<Rightarrow> json \<Rightarrow> event list \<times> response" where
  "predict_demand env data =
     respond
       (seq (log_request data)
       (bind (validate_demand_input data) (\<lambda>validation_issues.
          if validation_issues \<noteq> []
          then reply (Error_response 400 ''Invalid input data'' (Issues validation_issues))
          else
            bind (lift (py_getitem data ''historicalData'')) (\<lambda>historical_data.
            bind (lift (py_getitem data ''locationId'')) (\<lambda>location_id.
            bind (lift (py_getitem data ''modelId'')) (\<lambda>model_id.
              catch (demand_body env data historical_data location_id model_id)
                    data_processing_handler))))))
       fatal_handler"

subsection \<open>Supplier performance forecast\<close>

definition check_density_supplier :: "data_frame \<Rightarrow> unit comp" where
  "check_density_supplier df =
     (if below_threshold (density df) then emit (Warn_low_density (density df)) else ret ())"

text \<open>The cleaning of one quantity: rows with a null are dropped with a warning; then, when
  a value is left that is not numeric, the column is coerced and the rows that became NaN are
  dropped, with a warning.\<close>

definition clean_series ::
    "'m env \<Rightarrow> string \<Rightarrow> timestamp option list \<Rightarrow> cell list \<Rightarrow> fit_frame comp" where
  "clean_series env label tss col =
     (let rows = zip tss col in
      bind (if list_ex (\<lambda>r. is_null (snd r)) rows
            then seq (emit (Warn_nulls label (length (filter (\<lambda>r. is_null (snd r)) rows))))
                     (ret (filter (\<lambda>r. \<not> is_null (snd r)) rows))
            else ret rows) (\<lambda>rows1.
      bind (if \<not> list_all (\<lambda>r. is_numeric env (snd r)) rows1
            then seq (emit (Warn_non_numeric label))
                     (ret (map (\<lambda>r. (fst r, Some (JFloat (the (to_numeric env (snd r))))))
                             (filter (\<lambda>r. is_numeric env (snd r)) rows1)))
            else ret rows1) (\<lambda>rows2.
        ret \<lparr>ff_ds = map fst rows2, ff_y = map snd rows2, ff_regressors = []\<rparr>)))"

text \<open>Fit, future frame without history, prediction.\<close>

definition forecast_series ::
    "'m env \<Rightarrow> prophet_config \<Rightarrow> fit_frame \<Rightarrow> int \<Rightarrow> forecast comp" where
  "forecast_series env cfg frame periods =
     bind (engine_fit env cfg frame) (\<lambda>model.
     bind (engine_make_future env model periods False) (\<lambda>future.
       engine_predict env model \<lparr>fu_ds = future, fu_regressors = []\<rparr>))"

text \<open>\<^verbatim>\<open>min(1.0, max(0.0, x))\<close>\<close>

definition clamp01 :: "real \<Rightarrow> real" where
  "clamp01 x = min 1 (max 0 x)"

definition clamped_point_of :: "forecast_row \<Rightarrow> forecast_point" where
  "clamped_point_of row =
     \<lparr>fp_date = ds row, fp_value = clamp01 (yhat row), fp_lower = clamp01 (yhat_lower row),
      fp_upper = clamp01 (yhat_upper row)\<rparr>"

definition supplier_config :: "real \<Rightarrow> prophet_config" where
  "supplier_config cps =
     default_config\<lparr>interval_width := 95 / 100, yearly_seasonality := Some True,
       weekly_seasonality := Some True, daily_seasonality := Some False,
       changepoint_prior_scale := cps\<rparr>"

definition quality_config :: prophet_config where
  "quality_config = supplier_config (5 / 100)"

definition lead_time_config :: prophet_config where
  "lead_time_config = supplier_config (1 / 10)"

text \<open>The two forecasts, the strengths and the response.\<close>

definition supplier_forecast ::
    "'m env \<Rightarrow> data_frame \<Rightarrow> json \<Rightarrow> int \<Rightarrow> json \<Rightarrow> response comp" where
  "supplier_forecast env df future_periods periods supplier_id =
     bind (lift (column df ''qualityRating'')) (\<lambda>quality_col.
     bind (clean_series env ''quality'' (df_ds df) quality_col) (\<lambda>quality_df.
     bind (forecast_series env quality_config quality_df periods) (\<lambda>quality_forecast_df.
     bind (lift (column df ''leadTimeReliability'')) (\<lambda>lead_time_col.
     bind (clean_series env ''lead time'' (df_ds df) lead_time_col) (\<lambda>lead_time_df.
     bind (forecast_series env lead_time_config lead_time_df periods) (\<lambda>lead_time_forecast_df.
     bind (supplier_strengths env quality_forecast_df lead_time_forecast_df) (\<lambda>strengths.
     bind (lift (strftime (ds_min (df_ds df)))) (\<lambda>start.
     bind (lift (strftime (ds_max (df_ds df)))) (\<lambda>end.
       ret (Supplier_ok
         \<lparr>sr_supplierId = supplier_id,
          sr_qualityForecast = map clamped_point_of (fc_rows quality_forecast_df),
          sr_leadTimeForecast = map clamped_point_of (fc_rows lead_time_forecast_df),
          sr_metadata =
            \<lparr>confidenceInterval = 95 / 100,
             seasonalityStrength = fst strengths,
             trendStrength = snd strengths\<rparr>,
          sr_dataPoints = length (df_ds df),
          sr_start = start,
          sr_end = end,
          sr_futurePeriods = future_periods\<rparr>))))))))))"

definition supplier_body :: "'m env \<Rightarrow> json \<Rightarrow> json \<Rightarrow> json \<Rightarrow> response comp" where
  "supplier_body env historical_data future_periods supplier_id =
     bind (frame_of env historical_data) (\<lambda>df.
     seq (check_density_supplier df)
    (seq (log_gaps_supplier env df)
    (bind (lift (as_periods future_periods)) (\<lambda>periods.
       supplier_forecast env df future_periods periods supplier_id))))"

definition predict_supplier_performance :: "'m env \<Rightarrow> json \<Rightarrow> event list \<times> response" where
  "predict_supplier_performance env data =
     respond
       (seq (bind (lift (py_get data ''supplierId'' JNull)) (\<lambda>_. log_request data))
       (bind (validate_supplier_performance_input data) (\<lambda>validation_issues.
          if validation_issues \<noteq> []
          then reply (Error_response 400 ''Invalid input data'' (Issues validation_issues))
          else
            bind (lift (py_getitem data ''historicalData'')) (\<lambda>historical_data.
            bind (lift (py_get data ''futurePeriods'' (JInt 90))) (\<lambda>future_periods.
            bind (lift (py_getitem data ''supplierId'')) (\<lambda>supplier_id.
              catch (supplier_body env historical_data future_periods supplier_id)
                    data_processing_handler))))))
       fatal_handler"

section \<open>Reference notions\<close>

text \<open>The share of the calendar days between the first and the last observation on which
  there is an observation at all: the reading of "coverage" that the density is compared with.\<close>

definition day_coverage :: "data_frame \<Rightarrow> real option" where
  "day_coverage df =
     (case date_range df of
        None \<Rightarrow> None
      | Some d \<Rightarrow>
          Some (real (length (remdups (map (\<lambda>t. t div day) (ts_values (df_ds df)))))
                / real_of_int (d + 1)))"

text \<open>
  The interface of the engine that regressor projection relies on. A frame to predict that
  includes the history consists of timestamps up to the last one of the fitted frame,
  followed by one timestamp per requested period, each later than that last one; and a
  forecast has one row per timestamp of the frame it was asked to predict.
\<close>

definition engine_contract :: "'m env \<Rightarrow> bool" where
  "engine_contract env \<longleftrightarrow>
     (\<forall>cfg frame m periods future.
        fit env cfg frame = Inr m \<longrightarrow> make_future_dataframe env m periods True = Inr future \<longrightarrow>
        (\<exists>last_ds history new.
           ds_max (ff_ds frame) = Some last_ds \<and> future = history @ new
           \<and> list_all (\<lambda>t. t \<le> last_ds) history \<and> list_all (\<lambda>t. last_ds < t) new
           \<and> int (length new) = periods))
     \<and> (\<forall>m future fc. predict env m future = Inr fc \<longrightarrow> map ds (fc_rows fc) = fu_ds future)"

fun is_error :: "response \<Rightarrow> bool" where
  "is_error (Error_response _ _ _) = True"
| "is_error _ = False"

text \<open>A computation that returns early only with error responses.\<close>

definition only_errors :: "'a comp \<Rightarrow> bool" where
  "only_errors m = (case snd m of Return r \<Rightarrow> is_error r | _ \<Rightarrow> True)"

fun demand_result_of :: "response \<Rightarrow> demand_result option" where
  "demand_result_of (Demand_ok r) = Some r"
| "demand_result_of _ = None"


fun status_of :: "response \<Rightarrow> nat" where
  "status_of (Error_response code _ _) = code"
| "status_of _ = 200"

subsection \<open>Requests that reach the data quality checks\<close>

text \<open>The values a handler reads before its inner \<^verbatim>\<open>try\<close>, for a request whose first
  log line and validation go through without an issue.\<close>

definition demand_prelude :: "json \<Rightarrow> (json \<times> json \<times> json) option" where
  "demand_prelude data =
     (if log_request data = ([], Cont ()) \<and> validate_demand_input data = ([], Cont [])
      then (case (py_getitem data ''historicalData'', py_getitem data ''locationId'',
                  py_getitem data ''modelId'') of
              (Inr historical_data, Inr location_id, Inr model_id) \<Rightarrow>
                Some (historical_data, location_id, model_id)
            | _ \<Rightarrow> None)
      else None)"

definition supplier_prelude :: "json \<Rightarrow> (json \<times> json \<times> json) option" where
  "supplier_prelude data =
     (if log_request data = ([], Cont ()) \<and> validate_supplier_performance_input data = ([], Cont [])
      then (case (py_getitem data ''historicalData'', py_get data ''futurePeriods'' (JInt 90),
                  py_getitem data ''supplierId'') of
              (Inr historical_data, Inr future_periods, Inr supplier_id) \<Rightarrow>
                Some (historical_data, future_periods, supplier_id)
            | _ \<Rightarrow> None)
      else None)"

text \<open>The frame on which the data quality checks of a handler run, when the request gets
  that far.\<close>

definition demand_frame :: "'m env \<Rightarrow> json \<Rightarrow> data_frame option" where
  "demand_frame env data =
     (case demand_prelude data of
        None \<Rightarrow> None
      | Some (historical_data, location_id, model_id) \<Rightarrow>
          (case bind (frame_of env historical_data) (assign_y ''demand'') of
             (t, Cont df) \<Rightarrow> Some df
           | _ \<Rightarrow> None))"

definition supplier_frame :: "'m env \<Rightarrow> json \<Rightarrow> data_frame option" where
  "supplier_frame env data =
     (case supplier_prelude data of
        None \<Rightarrow> None
      | Some (historical_data, future_periods, supplier_id) \<Rightarrow>
          (case frame_of env historical_data of
             (t, Cont df) \<Rightarrow> Some df
           | _ \<Rightarrow> None))"

subsection \<open>The strength of a component, in the words of the specification\<close>








subsection \<open>Engine calls in a trace\<close>

text \<open>The fits of a regressor model among the events of a run: the demand model and the
  supplier models are configured otherwise.\<close>

fun projection_fit :: "event \<Rightarrow> bool" where
  "projection_fit (Engine_fit cfg frame) = (cfg = projection_config)"
| "projection_fit _ = False"

text \<open>The frame that \<^verbatim>\<open>predict_regressor\<close> fits for the inflation regressor of a
  location.\<close>

definition inflation_history :: "data_frame \<Rightarrow> json \<Rightarrow> fit_frame" where
  "inflation_history df location_id =
     (let scoped = scope_to_location df location_id
      in \<lparr>ff_ds = df_ds scoped,
          ff_y = (case column scoped ''inflation'' of Inr col \<Rightarrow> col | Inl e \<Rightarrow> []),
          ff_regressors = []\<rparr>)"

text \<open>The record of a division error in a strength block.\<close>

fun division_error :: "event \<Rightarrow> bool" where
  "division_error (Warn_strength_error e) = (e = ZeroDivisionError)"
| "division_error _ = False"

text \<open>The events of the steps that are neither: the data quality records and the engine
  calls for the demand model and the supplier models.\<close>

definition routine :: "event \<Rightarrow> bool" where
  "routine e \<longleftrightarrow> \<not> projection_fit e \<and> \<not> division_error e"

text \<open>A property of every event of a computation.\<close>

definition events_all :: "(event \<Rightarrow> bool) \<Rightarrow> 'a comp \<Rightarrow> bool" where
  "events_all Q m = list_all Q (fst m)"

section \<open>An example engine and example requests\<close>

text \<open>A small engine to run the handlers on: the fitted model is the frame itself, a
  forecast continues the line through the first and the last value of the history, with a
  band of one unit, and the parser knows a few dates.\<close>

definition example_dates :: "(string \<times> timestamp) list" where
  "example_dates =
     [(''2024-01-01'', 19723 * day), (''2024-01-02'', 19724 * day), (''2024-01-03'', 19725 * day),
      (''2024-01-04'', 19726 * day), (''2024-01-11'', 19733 * day)]"

fun example_to_datetime :: "cell \<Rightarrow> exn + timestamp option" where
  "example_to_datetime None = Inr None"
| "example_to_datetime (Some JNull) = Inr None"
| "example_to_datetime (Some (JStr s)) =
     (case map_of example_dates s of None \<Rightarrow> Inl (ValueError s) | Some t \<Rightarrow> Inr (Some t))"
| "example_to_datetime (Some v) = Inl (TypeError (type_name v))"

definition cell_value :: "cell \<Rightarrow> real" where
  "cell_value c =
     (case c of None \<Rightarrow> 0 | Some v \<Rightarrow> (case num_value v of None \<Rightarrow> 0 | Some r \<Rightarrow> r))"

definition example_row :: "fit_frame \<Rightarrow> timestamp \<Rightarrow> forecast_row" where
  "example_row m t =
     (let y = cell_value (last (ff_y m))
                + (cell_value (last (ff_y m)) - cell_value (hd (ff_y m)))
                  * real_of_int ((t - the (ds_max (ff_ds m))) div day)
      in \<lparr>ds = t, yhat = y, yhat_lower = y - 1, yhat_upper = y + 1, trend = y, yearly = 0\<rparr>)"

text \<open>The sample standard deviation, exactly.\<close>

definition mean :: "real list \<Rightarrow> real" where
  "mean xs = sum_list xs / real (length xs)"

definition sample_std :: "real list \<Rightarrow> pyfloat" where
  "sample_std xs =
     (if length xs < 2 then NaN
      else Finite (sqrt (sum_list (map (\<lambda>x. (x - mean xs)\<^sup>2) xs) / real (length xs - 1))))"

text \<open>The positions in ascending order of the values, equal values in their order.\<close>

definition stable_argsort :: "timestamp list \<Rightarrow> nat list" where
  "stable_argsort ts = map fst (sort_key snd (zip [0 ..< length ts] ts))"

definition example_env :: "bool \<Rightarrow> fit_frame env" where
  "example_env with_yearly =
     \<lparr>fit = (\<lambda>cfg frame.
         if length (filter (\<lambda>c. \<not> is_null c) (ff_y frame)) < 2
         then Inl (ValueError ''Dataframe has less than 2 non-NaN rows.'')
         else Inr frame),
      make_future_dataframe = (\<lambda>m periods include_history.
         case ds_max (ff_ds m) of
           None \<Rightarrow> Inl (ValueError ''Found NaN in column ds.'')
         | Some t \<Rightarrow>
             if periods < 0 then Inl (ValueError ''Number of periods must be non-negative'')
             else Inr ((if include_history then sort (remdups (ts_values (ff_ds m))) else [])
                       @ map (\<lambda>i. t + day * i) [1 .. periods])),
      predict = (\<lambda>m future.
         if fu_ds future = [] then Inl (ValueError ''Dataframe has no rows.'')
         else Inr \<lparr>fc_rows = map (example_row m) (fu_ds future), fc_has_yearly = with_yearly\<rparr>),
      to_datetime = (\<lambda>col. example_to_datetime),
      str_to_numeric = (\<lambda>s. None),
      frame_error = (\<lambda>points. KeyError ''date''),
      argsort = stable_argsort,
      series_std = sample_std\<rparr>"

definition demand_point :: "string \<Rightarrow> json \<Rightarrow> (string \<times> json) list \<Rightarrow> json" where
  "demand_point d v extra = JObj ([(''date'', JStr d), (''demand'', v)] @ extra)"

definition supplier_point :: "string \<Rightarrow> json \<Rightarrow> json \<Rightarrow> json" where
  "supplier_point d q l =
     JObj [(''date'', JStr d), (''qualityRating'', q), (''leadTimeReliability'', l)]"

text \<open>A demand request that carries every field but \<^verbatim>\<open>locationId\<close>.\<close>

definition request_without_location :: json where
  "request_without_location =
     JObj [(''historicalData'',
              JList [demand_point ''2024-01-01'' (JInt 10) [], demand_point ''2024-01-02'' (JInt 12) []]),
           (''futurePeriods'', JInt 2),
           (''modelId'', JStr ''m1'')]"

definition demand_request :: "json list \<Rightarrow> (string \<times> json) list \<Rightarrow> json" where
  "demand_request points extra =
     JObj ([(''historicalData'', JList points), (''futurePeriods'', JInt 2),
            (''locationId'', JStr ''L1''), (''modelId'', JStr ''m1'')] @ extra)"

definition supplier_request_of :: "json list \<Rightarrow> json" where
  "supplier_request_of points =
     JObj [(''historicalData'', JList points), (''futurePeriods'', JInt 2),
           (''supplierId'', JStr ''S1'')]"


text \<open>Two daily points with an \<^verbatim>\<open>mti\<close> column, and future MTI values from the caller.\<close>

definition mti_supplied_request :: json where
  "mti_supplied_request =
     demand_request
       [demand_point ''2024-01-01'' (JInt 10) [(''mti'', JInt 1)],
        demand_point ''2024-01-02'' (JInt 12) [(''mti'', JInt 2)]]
       [(''futureRegressors'', JObj [(''mti'', JList [JInt 3, JInt 4])])]"

text \<open>The same with an \<^verbatim>\<open>inflation\<close> column and future inflation values from the caller.\<close>

definition inflation_supplied_request :: json where
  "inflation_supplied_request =
     demand_request
       [demand_point ''2024-01-01'' (JInt 10) [(''inflation'', JInt 2)],
        demand_point ''2024-01-02'' (JInt 12) [(''inflation'', JInt 3)]]
       [(''futureRegressors'', JObj [(''inflation'', JList [JInt 7, JInt 7])])]"



text \<open>Demand values that are null, or not numeric.\<close>

definition null_demand_request :: json where
  "null_demand_request =
     demand_request
       [demand_point ''2024-01-01'' (JInt 10) [], demand_point ''2024-01-02'' JNull []] []"

text \<open>Two daily supplier points.\<close>

definition supplier_request :: json where
  "supplier_request =
     supplier_request_of
       [supplier_point ''2024-01-01'' (JFloat (8 / 10)) (JFloat (1 / 2)),
        supplier_point ''2024-01-02'' (JFloat (9 / 10)) (JFloat (1 / 2))]"

text \<open>Four daily supplier points; one quality rating is null and one is a word, and one
  lead-time reliability is null.\<close>

definition dirty_supplier_request :: json where
  "dirty_supplier_request =
     supplier_request_of
       [supplier_point ''2024-01-01'' (JFloat (8 / 10)) (JFloat (1 / 2)),
        supplier_point ''2024-01-02'' JNull (JFloat (1 / 2)),
        supplier_point ''2024-01-03'' (JStr ''n/a'') JNull,
        supplier_point ''2024-01-04'' (JFloat (9 / 10)) (JFloat (1 / 2))]"

text \<open>Seven points on one day and one point ten days later, in time order and with the late
  point first.\<close>

definition gap_demand_request :: json where
  "gap_demand_request =
     demand_request
       [demand_point ''2024-01-01'' (JInt 10) [],
        demand_point ''2024-01-01'' (JInt 10) [],
        demand_point ''2024-01-01'' (JInt 10) [],
        demand_point ''2024-01-01'' (JInt 10) [],
        demand_point ''2024-01-01'' (JInt 10) [],
        demand_point ''2024-01-01'' (JInt 10) [],
        demand_point ''2024-01-01'' (JInt 10) [],
        demand_point ''2024-01-11'' (JInt 12) []] []"

definition unsorted_gap_demand_request :: json where
  "unsorted_gap_demand_request =
     demand_request
       [demand_point ''2024-01-11'' (JInt 12) [],
        demand_point ''2024-01-01'' (JInt 10) [],
        demand_point ''2024-01-01'' (JInt 10) [],
        demand_point ''2024-01-01'' (JInt 10) [],
        demand_point ''2024-01-01'' (JInt 10) [],
        demand_point ''2024-01-01'' (JInt 10) [],
        demand_point ''2024-01-01'' (JInt 10) [],
        demand_point ''2024-01-01'' (JInt 10) []] []"

text \<open>Three observations on one day and one two days later.\<close>

definition repeated_dates_frame :: data_frame where
  "repeated_dates_frame =
     \<lparr>df_ds = [Some (19723 * day), Some (19723 * day), Some (19723 * day), Some (19725 * day)],
      df_cols = []\<rparr>"

text \<open>The responses of the example engine to two of the requests.\<close>

definition supplier_request_result :: supplier_result where
  "supplier_request_result =
     \<lparr>sr_supplierId = JStr ''S1'',
      sr_qualityForecast =
        [\<lparr>fp_date = 19725 * day, fp_value = 1, fp_lower = 0, fp_upper = 1\<rparr>,
         \<lparr>fp_date = 19726 * day, fp_value = 1, fp_lower = 1 / 10, fp_upper = 1\<rparr>],
      sr_leadTimeForecast =
        [\<lparr>fp_date = 19725 * day, fp_value = 1 / 2, fp_lower = 0, fp_upper = 1\<rparr>,
         \<lparr>fp_date = 19726 * day, fp_value = 1 / 2, fp_lower = 0, fp_upper = 1\<rparr>],
      sr_metadata =
        \<lparr>confidenceInterval = 95 / 100, seasonalityStrength = Finite 0,
         trendStrength = Finite (1 / 2)\<rparr>,
      sr_dataPoints = 2,
      sr_start = 19723 * day,
      sr_end = 19724 * day,
      sr_futurePeriods = JInt 2\<rparr>"

definition example_demand_forecast :: "forecast_point list" where
  "example_demand_forecast =
     [\<lparr>fp_date = 19725 * day, fp_value = 14, fp_lower = 13, fp_upper = 15\<rparr>,
      \<lparr>fp_date = 19726 * day, fp_value = 16, fp_lower = 15, fp_upper = 17\<rparr>]"

definition mti_supplied_result :: demand_result where
  "mti_supplied_result =
     \<lparr>dr_forecast = example_demand_forecast,
      dr_locationId = JStr ''L1'',
      dr_modelId = JStr ''m1'',
      dr_metadata =
        \<lparr>confidenceInterval = 95 / 100, seasonalityStrength = Finite 0,
         trendStrength = Finite 1\<rparr>,
      dr_future_mti = JList [JInt 3, JInt 4],
      dr_future_inflation = JList [],
      dr_debugInfo =
        \<lparr>dd_dataPoints = 2, dd_start = 19723 * day, dd_end = 19724 * day,
         dd_regressorsUsed = [''mti''], dd_futurePeriods = JInt 2,
         dd_generatedRegressors = [''mti'']\<rparr>\<rparr>"





text \<open>The frame of \<open>mti_supplied_request\<close>, the engine calls of its run, and the first
  three engine calls of the run of \<open>inflation_supplied_request\<close>.\<close>

definition mti_supplied_frame :: data_frame where
  "mti_supplied_frame =
     \<lparr>df_ds = [Some (19723 * day), Some (19724 * day)],
      df_cols =
        [(''date'', [Some (JStr ''2024-01-01''), Some (JStr ''2024-01-02'')]),
         (''demand'', [Some (JInt 10), Some (JInt 12)]),
         (''mti'', [Some (JInt 1), Some (JInt 2)]),
         (''y'', [Some (JInt 10), Some (JInt 12)])]\<rparr>"

definition mti_supplied_trace :: "event list" where
  "mti_supplied_trace =
     [Engine_fit
        (demand_config [''mti''])
        \<lparr>ff_ds = [Some (19723 * day), Some (19724 * day)],
         ff_y = [Some (JInt 10), Some (JInt 12)],
         ff_regressors = [(''mti'', [Some (JInt 1), Some (JInt 2)])]\<rparr>,
      Engine_make_future 2 False,
      Engine_predict
        \<lparr>fu_ds = [19725 * day, 19726 * day],
         fu_regressors = [(''mti'', JList [JInt 3, JInt 4])]\<rparr>]"

definition inflation_supplied_frame :: data_frame where
  "inflation_supplied_frame =
     \<lparr>df_ds = [Some (19723 * day), Some (19724 * day)],
      df_cols =
        [(''date'', [Some (JStr ''2024-01-01''), Some (JStr ''2024-01-02'')]),
         (''demand'', [Some (JInt 10), Some (JInt 12)]),
         (''inflation'', [Some (JInt 2), Some (JInt 3)]),
         (''y'', [Some (JInt 10), Some (JInt 12)])]\<rparr>"

definition inflation_supplied_result :: demand_result where
  "inflation_supplied_result =
     \<lparr>dr_forecast = example_demand_forecast,
      dr_locationId = JStr ''L1'',
      dr_modelId = JStr ''m1'',
      dr_metadata =
        \<lparr>confidenceInterval = 95 / 100, seasonalityStrength = Finite 0,
         trendStrength = Finite 1\<rparr>,
      dr_future_mti = JList [],
      dr_future_inflation = JList [JFloat 4, JFloat 5],
      dr_debugInfo =
        \<lparr>dd_dataPoints = 2, dd_start = 19723 * day, dd_end = 19724 * day,
         dd_regressorsUsed = [''inflation''], dd_futurePeriods = JInt 2,
         dd_generatedRegressors = [''inflation'']\<rparr>\<rparr>"

definition inflation_projection_trace :: "event list" where
  "inflation_projection_trace =
     [Engine_fit
        projection_config
        \<lparr>ff_ds = [Some (19723 * day), Some (19724 * day)],
         ff_y = [Some (JInt 2), Some (JInt 3)],
         ff_regressors = []\<rparr>,
      Engine_make_future 2 True,
      Engine_predict
        \<lparr>fu_ds = [19723 * day, 19724 * day, 19725 * day, 19726 * day], fu_regressors = []\<rparr>]"




definition null_demand_frame :: data_frame where
  "null_demand_frame =
     \<lparr>df_ds = [Some (19723 * day), Some (19724 * day)],
      df_cols =
        [(''date'', [Some (JStr ''2024-01-01''), Some (JStr ''2024-01-02'')]),
         (''demand'', [Some (JInt 10), Some JNull]),
         (''y'', [Some (JInt 10), Some JNull])]\<rparr>"

definition dirty_supplier_frame :: data_frame where
  "dirty_supplier_frame =
     \<lparr>df_ds = [Some (19723 * day), Some (19724 * day), Some (19725 * day), Some (19726 * day)],
      df_cols =
        [(''date'', [Some (JStr ''2024-01-01''), Some (JStr ''2024-01-02''),
                     Some (JStr ''2024-01-03''), Some (JStr ''2024-01-04'')]),
         (''qualityRating'',
            [Some (JFloat (8 / 10)), Some JNull, Some (JStr ''n/a''), Some (JFloat (9 / 10))]),
         (''leadTimeReliability'',
            [Some (JFloat (1 / 2)), Some (JFloat (1 / 2)), Some JNull, Some (JFloat (1 / 2))])]\<rparr>"

definition dirty_quality_frame :: fit_frame where
  "dirty_quality_frame =
     \<lparr>ff_ds = [Some (19723 * day), Some (19726 * day)],
      ff_y = [Some (JFloat (8 / 10)), Some (JFloat (9 / 10))], ff_regressors = []\<rparr>"

definition dirty_lead_time_frame :: fit_frame where
  "dirty_lead_time_frame =
     \<lparr>ff_ds = [Some (19723 * day), Some (19724 * day), Some (19726 * day)],
      ff_y = [Some (JFloat (1 / 2)), Some (JFloat (1 / 2)), Some (JFloat (1 / 2))],
      ff_regressors = []\<rparr>"

section \<open>Properties\<close>

subsection \<open>Rules for the steps of a handler\<close>

lemmas comp_defs =
  ret_def reply_def raise_def emit_def lift_def bind_def seq_def catch_def respond_def recover_def

lemmas validator_defs =
  validate_demand_input_def validate_supplier_performance_input_def validate_with_def
  check_field_def

lemma bind_ret: "bind (ret x) f = f x"
  by (simp add: comp_defs split: prod.splits)

lemma bind_raise: "bind (raise e) f = raise e"
  by (simp add: comp_defs)

lemma bind_reply: "bind (reply r) f = reply r"
  by (simp add: comp_defs)

lemma bind_Cont: "m = (t, Cont x) \<Longrightarrow> bind m f = (t @ fst (f x), snd (f x))"
  by (simp add: comp_defs split: prod.splits)


subsection \<open>Required fields\<close>

text \<open>
  C1. A request that misses a required top-level field is answered with a client error (400)
  that names the field, before the engine is invoked. The demand handler does not do so for
  \<^verbatim>\<open>locationId\<close>: its validator has no entry for the field that the handler then
  reads with \<^verbatim>\<open>data["locationId"]  # Now required\<close>, so the validator reports no
  issue and the handler answers with the server error of its outer \<^verbatim>\<open>except\<close>.
\<close>

theorem demand_missing_locationId_is_fatal:
  "validate_demand_input request_without_location = ([], Cont [])
   \<and> predict_demand env request_without_location
       = ([], Error_response 500 ''Fatal error'' (Exception (KeyError ''locationId'')))"
  by (simp add: request_without_location_def demand_point_def predict_demand_def log_request_def
      validator_defs comp_defs fatal_handler_def)

subsection \<open>Unfolding sets for running the handlers on the example engine\<close>

lemmas frame_defs =
  frame_of_def build_frame_def assign_y_def column_def set_column_def has_column_def

lemmas example_defs =
  example_env_def example_dates_def example_row_def cell_value_def
  demand_point_def supplier_point_def demand_request_def supplier_request_of_def

lemmas quality_defs =
  density_def date_range_def ds_max_def ds_min_def ts_values_def List.map_filter_def
  below_threshold_def day_def sort_values_def stable_argsort_def large_gaps_def diff_def
  ts_minus_def days_def loc_def
  is_numeric_def check_demand_values_def check_density_demand_def check_density_supplier_def
  log_gaps_demand_def log_gaps_supplier_def

lemmas engine_defs =
  engine_fit_def engine_make_future_def engine_predict_def default_config_def
  supplier_config_def quality_config_def lead_time_config_def forecast_series_def

lemmas metrics_defs =
  demand_strengths_def supplier_strengths_def yearly_column_def sample_std_def mean_def
  strength_def capped_strength_def usable_def notnull_def py_min_def

lemmas demand_defs =
  predict_demand_def log_request_def demand_body_def demand_forecast_def demand_model_def
  handle_mti_def project_mti_def handle_inflation_def predict_regressor_def scope_to_location_def
  future_values_def
  select_rows_def cell_equals_def strftime_def forecast_point_of_def get_or_empty_def
  fatal_handler_def

lemmas supplier_defs =
  predict_supplier_performance_def log_request_def supplier_body_def supplier_forecast_def
  clean_series_def clamped_point_of_def clamp01_def strftime_def fatal_handler_def

lemmas run_defs =
  validator_defs comp_defs frame_defs example_defs quality_defs engine_defs metrics_defs
  Let_def upto.simps

subsection \<open>Early returns are error responses\<close>

lemma only_errors_ret: "only_errors (ret x)"
  by (simp add: only_errors_def ret_def)

lemma only_errors_raise: "only_errors (raise e)"
  by (simp add: only_errors_def raise_def)

lemma only_errors_emit: "only_errors (emit e)"
  by (simp add: only_errors_def emit_def)

lemma only_errors_lift: "only_errors (lift x)"
  by (simp add: only_errors_def lift_def ret_def raise_def split: sum.splits)

lemma only_errors_reply: "is_error r \<Longrightarrow> only_errors (reply r)"
  by (simp add: only_errors_def reply_def)

lemma only_errors_bind:
  assumes "only_errors m" and "\<And>x. only_errors (f x)"
  shows "only_errors (bind m f)"
proof (cases m)
  case (Pair t out)
  show ?thesis
  proof (cases out)
    case (Cont x)
    with Pair assms(2) [of x] show ?thesis
      by (cases "f x") (simp add: only_errors_def bind_def)
  next
    case (Return r)
    with Pair assms(1) show ?thesis by (simp add: only_errors_def bind_def)
  next
    case (Raise e)
    with Pair show ?thesis by (simp add: only_errors_def bind_def)
  qed
qed

lemma only_errors_seq: "only_errors m \<Longrightarrow> only_errors k \<Longrightarrow> only_errors (seq m k)"
  by (simp add: seq_def only_errors_bind)

lemma only_errors_recover:
  assumes "only_errors m" and "\<And>e. only_errors (h e)"
  shows "only_errors (recover m h)"
proof (cases m)
  case (Pair t out)
  show ?thesis
  proof (cases out)
    case (Raise e)
    with Pair assms(2) [of e] show ?thesis
      by (cases "h e") (simp add: only_errors_def recover_def)
  next
    case (Return r)
    with Pair assms(1) show ?thesis by (simp add: only_errors_def recover_def)
  next
    case (Cont x)
    with Pair show ?thesis by (simp add: only_errors_def recover_def)
  qed
qed

lemmas only_errors_intros =
  only_errors_ret only_errors_raise only_errors_emit only_errors_lift only_errors_reply
  only_errors_bind only_errors_seq only_errors_recover

lemma only_errors_ReturnD: "only_errors m \<Longrightarrow> m = (t, Return r) \<Longrightarrow> is_error r"
  by (simp add: only_errors_def)

lemma only_errors_map_raising: "only_errors (map_raising f xs)"
  by (induction xs) (auto intro!: only_errors_intros)

lemma only_errors_frame_of: "only_errors (frame_of env h)"
  by (auto simp: frame_of_def build_frame_def Let_def
      intro!: only_errors_intros only_errors_map_raising split: json.splits option.splits)

lemma only_errors_assign_y: "only_errors (assign_y n df)"
  by (auto simp: assign_y_def intro!: only_errors_intros)

lemma only_errors_check_demand_values: "only_errors (check_demand_values env df)"
  by (auto simp: check_demand_values_def intro!: only_errors_intros)

lemma only_errors_check_density_demand: "only_errors (check_density_demand df)"
  by (auto simp: check_density_demand_def intro!: only_errors_intros)

lemma only_errors_log_each_gap: "only_errors (log_each_gap rows idxs)"
  by (induction idxs) (auto intro!: only_errors_intros)

lemma only_errors_log_gaps_demand: "only_errors (log_gaps_demand env df)"
  by (auto simp: log_gaps_demand_def Let_def intro!: only_errors_intros only_errors_log_each_gap)

lemma only_errors_engine:
  "only_errors (engine_fit env cfg frame)"
  "only_errors (engine_make_future env m p h)"
  "only_errors (engine_predict env m fu)"
  by (auto simp: engine_fit_def engine_make_future_def engine_predict_def intro!: only_errors_intros)

lemma only_errors_predict_regressor: "only_errors (predict_regressor env hdf n p l)"
  by (auto simp: predict_regressor_def Let_def intro!: only_errors_intros only_errors_engine)

lemma only_errors_handle_mti: "only_errors (handle_mti env data df p)"
  by (auto simp: handle_mti_def project_mti_def Let_def
      intro!: only_errors_intros only_errors_predict_regressor)

lemma only_errors_handle_inflation: "only_errors (handle_inflation env df p l)"
  by (auto simp: handle_inflation_def intro!: only_errors_intros only_errors_predict_regressor)

lemma only_errors_attach_regressors: "only_errors (attach_regressors n frs)"
  by (induction n frs rule: attach_regressors.induct)
     (auto intro!: only_errors_intros split: json.splits)

lemma only_errors_strength:
  "only_errors (strength c y)" "only_errors (capped_strength c y)"
  by (auto simp: strength_def capped_strength_def intro!: only_errors_intros)

lemma only_errors_demand_strengths: "only_errors (demand_strengths env fc)"
  by (auto simp: demand_strengths_def Let_def intro!: only_errors_intros only_errors_strength)

lemma only_errors_supplier_strengths: "only_errors (supplier_strengths env fc fc')"
  by (auto simp: supplier_strengths_def Let_def intro!: only_errors_intros only_errors_strength)

lemma only_errors_clean_series: "only_errors (clean_series env l tss col)"
  by (auto simp: clean_series_def Let_def intro!: only_errors_intros)

lemma only_errors_forecast_series: "only_errors (forecast_series env cfg fr p)"
  by (auto simp: forecast_series_def intro!: only_errors_intros only_errors_engine)

lemma only_errors_log_request: "only_errors (log_request data)"
  by (auto simp: log_request_def intro!: only_errors_intros)

lemma only_errors_check_fields: "only_errors (check_fields data fts)"
  by (induction fts) (auto simp: check_field_def intro!: only_errors_intros split: prod.splits)

lemma only_errors_check_point_fields: "only_errors (check_point_fields p fs)"
  by (induction fs) (auto intro!: only_errors_intros)

lemma only_errors_validate_with: "only_errors (validate_with fts fs data)"
  by (auto simp: validate_with_def
      intro!: only_errors_intros only_errors_check_fields only_errors_check_point_fields
      split: json.splits list.splits)

lemma only_errors_supplier_body: "only_errors (supplier_body env h fp sid)"
  by (auto simp: supplier_body_def supplier_forecast_def check_density_supplier_def
        log_gaps_supplier_def Let_def
      intro!: only_errors_intros only_errors_frame_of only_errors_clean_series
        only_errors_forecast_series only_errors_supplier_strengths)

lemma only_errors_demand_body: "only_errors (demand_body env data h lid mid)"
  by (auto simp: demand_body_def demand_forecast_def demand_model_def Let_def
      intro!: only_errors_intros only_errors_frame_of only_errors_assign_y
        only_errors_check_demand_values only_errors_check_density_demand
        only_errors_log_gaps_demand only_errors_handle_mti only_errors_handle_inflation
        only_errors_engine only_errors_attach_regressors only_errors_demand_strengths)

lemma is_error_data_processing_handler: "is_error (data_processing_handler e)"
  by (cases e) simp_all

lemma data_processing_handler_not_ok:
  "data_processing_handler e \<noteq> Supplier_ok r" "data_processing_handler e \<noteq> Demand_ok r'"
  using is_error_data_processing_handler [of e] by auto

subsection \<open>What a successful run went through\<close>

lemma bind_eq_ContD:
  "bind m f = (t, Cont y) \<Longrightarrow> \<exists>t1 x t2. m = (t1, Cont x) \<and> f x = (t2, Cont y) \<and> t = t1 @ t2"
  by (auto simp: bind_def split: prod.splits outcome.splits)

lemma seq_eq_ContD:
  "seq m k = (t, Cont y) \<Longrightarrow> \<exists>t1 t2. m = (t1, Cont ()) \<and> k = (t2, Cont y) \<and> t = t1 @ t2"
  by (auto simp: seq_def dest!: bind_eq_ContD)

lemma lift_eq_ContD: "lift r = (t, Cont y) \<Longrightarrow> r = Inr y \<and> t = []"
  by (auto simp: lift_def ret_def raise_def split: sum.splits)

lemma ret_eq_ContD: "ret x = (t, Cont y) \<Longrightarrow> x = y \<and> t = []"
  by (auto simp: ret_def)

lemma predict_supplier_performance_ok:
  assumes "predict_supplier_performance env data = (t, Supplier_ok r)"
  shows "\<exists>h fp sid t'. py_getitem data ''historicalData'' = Inr h
           \<and> py_get data ''futurePeriods'' (JInt 90) = Inr fp
           \<and> py_getitem data ''supplierId'' = Inr sid
           \<and> supplier_body env h fp sid = (t', Cont (Supplier_ok r))"
proof -
  have "\<not> supplier_body env h fp sid = (t', Return (Supplier_ok r))" for h fp sid t'
    using only_errors_ReturnD [OF only_errors_supplier_body] by fastforce
  moreover have "\<not> log_request data = (t', Return (Supplier_ok r))" for t'
    using only_errors_ReturnD [OF only_errors_log_request] by fastforce
  moreover have "\<not> validate_supplier_performance_input data = (t', Return (Supplier_ok r))" for t'
    using only_errors_ReturnD [OF only_errors_validate_with]
    unfolding validate_supplier_performance_input_def by fastforce
  ultimately show ?thesis
    using assms unfolding predict_supplier_performance_def
    by (auto simp: comp_defs fatal_handler_def data_processing_handler_not_ok
        split: prod.splits outcome.splits sum.splits if_splits)
qed

lemma supplier_body_ok:
  assumes "supplier_body env h fp sid = (t, Cont (Supplier_ok r))"
  shows "\<exists>df periods t'. supplier_forecast env df fp periods sid = (t', Cont (Supplier_ok r))"
  using assms unfolding supplier_body_def
  by (fastforce dest!: bind_eq_ContD seq_eq_ContD lift_eq_ContD)

lemma supplier_forecast_ok:
  assumes "supplier_forecast env df fp periods sid = (t, Cont (Supplier_ok r))"
  shows "\<exists>qf lf t' s tq tl qframe lframe.
           forecast_series env quality_config qframe periods = (tq, Cont qf)
           \<and> forecast_series env lead_time_config lframe periods = (tl, Cont lf)
           \<and> sr_qualityForecast r = map clamped_point_of (fc_rows qf)
           \<and> sr_leadTimeForecast r = map clamped_point_of (fc_rows lf)
           \<and> supplier_strengths env qf lf = (t', Cont s)
           \<and> seasonalityStrength (sr_metadata r) = fst s \<and> trendStrength (sr_metadata r) = snd s"
  using assms unfolding supplier_forecast_def
  by (fastforce dest!: bind_eq_ContD lift_eq_ContD ret_eq_ContD)

lemma supplier_response_ok:
  assumes "snd (predict_supplier_performance env data) = Supplier_ok r"
  shows "\<exists>df fp periods sid t. supplier_forecast env df fp periods sid = (t, Cont (Supplier_ok r))"
proof -
  from assms have "predict_supplier_performance env data
      = (fst (predict_supplier_performance env data), Supplier_ok r)"
    by (metis prod.collapse)
  from predict_supplier_performance_ok [OF this] supplier_body_ok show ?thesis by blast
qed

subsection \<open>Runs of the example engine\<close>

lemma supplier_request_response:
  "snd (predict_supplier_performance (example_env True) supplier_request)
     = Supplier_ok supplier_request_result"
  by (simp add: supplier_request_def supplier_request_result_def supplier_defs run_defs)

subsection \<open>Clamping of the supplier forecasts\<close>

lemma clamp01_range: "0 \<le> clamp01 x \<and> clamp01 x \<le> 1"
  by (simp add: clamp01_def)

text \<open>
  C8. In every successful supplier-performance response, every row of \<open>qualityForecast\<close>
  and of \<open>leadTimeForecast\<close> has its value, its lower and its upper bound in \<open>[0, 1]\<close>.
\<close>

theorem supplier_forecasts_are_clamped:
  assumes "snd (predict_supplier_performance env data) = Supplier_ok r"
    and "p \<in> set (sr_qualityForecast r) \<union> set (sr_leadTimeForecast r)"
  shows "0 \<le> fp_value p \<and> fp_value p \<le> 1 \<and> 0 \<le> fp_lower p \<and> fp_lower p \<le> 1
         \<and> 0 \<le> fp_upper p \<and> fp_upper p \<le> 1"
proof -
  from supplier_response_ok [OF assms(1)] obtain df fp periods sid t
    where "supplier_forecast env df fp periods sid = (t, Cont (Supplier_ok r))" by blast
  from supplier_forecast_ok [OF this] obtain qf lf :: forecast where
    "sr_qualityForecast r = map clamped_point_of (fc_rows qf)"
    "sr_leadTimeForecast r = map clamped_point_of (fc_rows lf)"
    by blast
  with assms(2) obtain row where "p = clamped_point_of row" by auto
  then show ?thesis by (simp add: clamped_point_of_def clamp01_range)
qed

theorem supplier_forecasts_are_clamped_witness:
  "snd (predict_supplier_performance (example_env True) supplier_request)
     = Supplier_ok supplier_request_result
   \<and> \<lparr>fp_date = 19726 * day, fp_value = 1, fp_lower = 1 / 10, fp_upper = 1\<rparr>
       \<in> set (sr_qualityForecast supplier_request_result)
         \<union> set (sr_leadTimeForecast supplier_request_result)
   \<and> 0 \<le> fp_value \<lparr>fp_date = 19726 * day, fp_value = 1, fp_lower = 1 / 10, fp_upper = 1\<rparr>
   \<and> fp_value \<lparr>fp_date = 19726 * day, fp_value = 1, fp_lower = 1 / 10, fp_upper = 1\<rparr> \<le> 1
   \<and> 0 \<le> fp_lower \<lparr>fp_date = 19726 * day, fp_value = 1, fp_lower = 1 / 10, fp_upper = 1\<rparr>
   \<and> fp_lower \<lparr>fp_date = 19726 * day, fp_value = 1, fp_lower = 1 / 10, fp_upper = 1\<rparr> \<le> 1
   \<and> 0 \<le> fp_upper \<lparr>fp_date = 19726 * day, fp_value = 1, fp_lower = 1 / 10, fp_upper = 1\<rparr>
   \<and> fp_upper \<lparr>fp_date = 19726 * day, fp_value = 1, fp_lower = 1 / 10, fp_upper = 1\<rparr> \<le> 1"
proof -
  have h1: "snd (predict_supplier_performance (example_env True) supplier_request)
              = Supplier_ok supplier_request_result"
    by (rule supplier_request_response)
  have h2: "\<lparr>fp_date = 19726 * day, fp_value = 1, fp_lower = 1 / 10, fp_upper = 1\<rparr>
              \<in> set (sr_qualityForecast supplier_request_result)
                \<union> set (sr_leadTimeForecast supplier_request_result)"
    by (simp add: supplier_request_result_def)
  from supplier_forecasts_are_clamped [OF h1 h2] h1 h2 show ?thesis by blast
qed

subsection \<open>Density counts every point\<close>

text \<open>
  C10. The density is the number of points, repeated timestamps included, divided by the
  span in whole days plus one. With repeated dates it can exceed \<open>1\<close>, and the demand
  handler's gate at \<open>0.7\<close> lets a series pass in which fewer than 70% of the calendar days
  of the span have an observation: four points on two of three days have density \<open>4/3\<close>,
  pass the gate, and cover \<open>2/3\<close> of the days.
\<close>

theorem density_counts_repeated_timestamps:
  "density df =
     (case (ds_max (df_ds df), ds_min (df_ds df)) of
        (Some hi, Some lo) \<Rightarrow> Some (real (length (df_ds df)) / real_of_int ((hi - lo) div day + 1))
      | _ \<Rightarrow> None)
   \<and> density repeated_dates_frame = Some (4 / 3)
   \<and> check_density_demand repeated_dates_frame = ([], Cont ())
   \<and> day_coverage repeated_dates_frame = Some (2 / 3)"
proof -
  have "density df =
     (case (ds_max (df_ds df), ds_min (df_ds df)) of
        (Some hi, Some lo) \<Rightarrow> Some (real (length (df_ds df)) / real_of_int ((hi - lo) div day + 1))
      | _ \<Rightarrow> None)"
    by (simp add: density_def date_range_def split: option.splits)
  moreover have "density repeated_dates_frame = Some (4 / 3)"
    by (simp add: repeated_dates_frame_def quality_defs)
  moreover have "check_density_demand repeated_dates_frame = ([], Cont ())"
    by (simp add: repeated_dates_frame_def quality_defs comp_defs)
  moreover have "day_coverage repeated_dates_frame = Some (2 / 3)"
    by (simp add: repeated_dates_frame_def day_coverage_def quality_defs)
  ultimately show ?thesis by blast
qed

subsection \<open>What a successful demand run went through\<close>

lemma only_errors_not_ok: "only_errors m \<Longrightarrow> \<not> is_error r \<Longrightarrow> snd m \<noteq> Return r"
  by (auto simp: only_errors_def)

lemma predict_demand_ok:
  assumes "predict_demand env data = (t, Demand_ok r)"
  shows "\<exists>h lid mid t'. py_getitem data ''historicalData'' = Inr h
           \<and> py_getitem data ''locationId'' = Inr lid
           \<and> py_getitem data ''modelId'' = Inr mid
           \<and> demand_body env data h lid mid = (t', Cont (Demand_ok r))"
proof -
  have "demand_body env data h lid mid \<noteq> (t', Return (Demand_ok r))" for h lid mid t'
    using only_errors_not_ok [OF only_errors_demand_body, of "Demand_ok r" env data h lid mid]
    by auto
  moreover have "snd (log_request data) \<noteq> Return (Demand_ok r)"
    by (rule only_errors_not_ok [OF only_errors_log_request]) simp
  moreover have "snd (validate_demand_input data) \<noteq> Return (Demand_ok r)"
    unfolding validate_demand_input_def
    by (rule only_errors_not_ok [OF only_errors_validate_with]) simp
  ultimately show ?thesis
    using assms unfolding predict_demand_def
    by (auto simp: comp_defs fatal_handler_def data_processing_handler_not_ok
        split: prod.splits outcome.splits sum.splits if_splits)
qed

lemma demand_body_ok:
  assumes "demand_body env data h lid mid = (t, Cont (Demand_ok r))"
  shows "\<exists>df0 df t0 t1 t'. frame_of env h = (t0, Cont df0) \<and> assign_y ''demand'' df0 = (t1, Cont df)
           \<and> demand_forecast env data df lid mid = (t', Cont (Demand_ok r))"
  using assms unfolding demand_body_def
  by (fastforce dest!: bind_eq_ContD seq_eq_ContD)

lemma demand_model_ok:
  assumes "demand_model env df lid mid fp periods frs = (t, Cont (Demand_ok r))"
  shows "\<exists>model future fc s t3 t4.
           engine_predict env model \<lparr>fu_ds = future, fu_regressors = frs\<rparr> = (t3, Cont fc)
           \<and> demand_strengths env fc = (t4, Cont s)
           \<and> dr_forecast r = map forecast_point_of (fc_rows fc)
           \<and> seasonalityStrength (dr_metadata r) = py_min (fst s) (Finite 1)
           \<and> trendStrength (dr_metadata r) = py_min (snd s) (Finite 1)
           \<and> dr_future_mti r = get_or_empty frs ''mti''
           \<and> dr_future_inflation r = get_or_empty frs ''inflation''
           \<and> dd_regressorsUsed (dr_debugInfo r) = map fst frs
           \<and> dd_generatedRegressors (dr_debugInfo r) = map fst frs"
  using assms unfolding demand_model_def Let_def
  by (fastforce dest!: bind_eq_ContD seq_eq_ContD lift_eq_ContD ret_eq_ContD)

lemma demand_forecast_resolved:
  assumes "demand_forecast env data df lid mid = (t, Cont (Demand_ok r))"
  shows "\<exists>fp periods mti inflation t1 t2 t3.
           py_get data ''futurePeriods'' (JInt 90) = Inr fp
           \<and> as_periods fp = Inr periods
           \<and> handle_mti env data df periods = (t1, Cont mti)
           \<and> handle_inflation env df periods lid = (t2, Cont inflation)
           \<and> demand_model env df lid mid fp periods (mti @ inflation) = (t3, Cont (Demand_ok r))
           \<and> t = t1 @ t2 @ t3"
  using assms unfolding demand_forecast_def
  by (fastforce dest!: bind_eq_ContD lift_eq_ContD)

lemma demand_forecast_ok:
  assumes "demand_forecast env data df lid mid = (t, Cont (Demand_ok r))"
  shows "\<exists>fp periods mti inflation model future fc s t1 t2 t3 t4.
           py_get data ''futurePeriods'' (JInt 90) = Inr fp
           \<and> as_periods fp = Inr periods
           \<and> handle_mti env data df periods = (t1, Cont mti)
           \<and> handle_inflation env df periods lid = (t2, Cont inflation)
           \<and> engine_predict env model \<lparr>fu_ds = future, fu_regressors = mti @ inflation\<rparr> = (t3, Cont fc)
           \<and> demand_strengths env fc = (t4, Cont s)
           \<and> dr_forecast r = map forecast_point_of (fc_rows fc)
           \<and> seasonalityStrength (dr_metadata r) = py_min (fst s) (Finite 1)
           \<and> trendStrength (dr_metadata r) = py_min (snd s) (Finite 1)
           \<and> dr_future_mti r = get_or_empty (mti @ inflation) ''mti''
           \<and> dr_future_inflation r = get_or_empty (mti @ inflation) ''inflation''
           \<and> dd_regressorsUsed (dr_debugInfo r) = map fst (mti @ inflation)
           \<and> dd_generatedRegressors (dr_debugInfo r) = map fst (mti @ inflation)"
proof -
  from demand_forecast_resolved [OF assms] obtain fp periods mti inflation t1 t2 t3 where
    a: "py_get data ''futurePeriods'' (JInt 90) = Inr fp" "as_periods fp = Inr periods"
       "handle_mti env data df periods = (t1, Cont mti)"
       "handle_inflation env df periods lid = (t2, Cont inflation)" and
    m: "demand_model env df lid mid fp periods (mti @ inflation) = (t3, Cont (Demand_ok r))"
    by blast
  from demand_model_ok [OF m] a show ?thesis by blast
qed


subsection \<open>Values a handler reads from the request\<close>

lemma py_getitem_contains: "py_getitem d k = Inr v \<Longrightarrow> py_contains k d = Inr True"
  by (cases d) (auto split: option.splits)

lemma predict_demand_via_prelude:
  assumes "demand_prelude data = Some (h, lid, mid)"
  shows "predict_demand env data
           = respond (catch (demand_body env data h lid mid) data_processing_handler) fatal_handler"
  using assms unfolding demand_prelude_def predict_demand_def
  by (auto simp: comp_defs split: if_splits sum.splits prod.splits outcome.splits)

lemma py_getitem_get: "py_getitem d k = Inr v \<Longrightarrow> py_get d k dflt = Inr v"
  by (cases d) (auto split: option.splits)

lemma supplier_prelude_SomeD:
  "supplier_prelude data = Some (h, fp, sid) \<Longrightarrow>
     log_request data = ([], Cont ()) \<and> validate_supplier_performance_input data = ([], Cont [])
     \<and> py_getitem data ''historicalData'' = Inr h
     \<and> py_get data ''futurePeriods'' (JInt 90) = Inr fp
     \<and> py_getitem data ''supplierId'' = Inr sid"
  by (auto simp: supplier_prelude_def split: if_splits sum.splits)

lemma predict_supplier_via_prelude:
  assumes "supplier_prelude data = Some (h, fp, sid)"
  shows "predict_supplier_performance env data
           = respond (catch (supplier_body env h fp sid) data_processing_handler) fatal_handler"
proof -
  from supplier_prelude_SomeD [OF assms] have
    f: "log_request data = ([], Cont ())"
       "validate_supplier_performance_input data = ([], Cont [])"
       "py_getitem data ''historicalData'' = Inr h"
       "py_get data ''futurePeriods'' (JInt 90) = Inr fp"
       "py_getitem data ''supplierId'' = Inr sid"
    by auto
  from py_getitem_get [OF f(5)] have g: "py_get data ''supplierId'' JNull = Inr sid" .
  show ?thesis
    unfolding predict_supplier_performance_def
    by (simp add: f g comp_defs split: prod.splits outcome.splits)
qed


subsection \<open>Steps that log nothing\<close>

lemma silent_bind: "fst m = [] \<Longrightarrow> (\<And>x. fst (f x) = []) \<Longrightarrow> fst (bind m f) = []"
  by (cases m) (auto simp: bind_def split: outcome.splits prod.splits)

lemma silent_basic: "fst (ret x) = []" "fst (raise e) = []" "fst (reply r) = []" "fst (lift y) = []"
  by (auto simp: comp_defs split: sum.splits)

lemma silent_map_raising: "fst (map_raising f xs) = []"
  by (induction xs) (auto intro!: silent_bind simp: silent_basic)

lemma silent_frame_of: "fst (frame_of env h) = []"
  by (auto simp: frame_of_def build_frame_def Let_def silent_basic silent_map_raising
      intro!: silent_bind split: json.splits option.splits)

lemma silent_assign_y: "fst (assign_y n df) = []"
  by (auto simp: assign_y_def silent_basic intro!: silent_bind)

lemma demand_frame_SomeD:
  assumes "demand_frame env data = Some df"
  shows "\<exists>h lid mid df0. demand_prelude data = Some (h, lid, mid)
           \<and> frame_of env h = ([], Cont df0) \<and> assign_y ''demand'' df0 = ([], Cont df)"
proof -
  from assms obtain h lid mid t where
    p: "demand_prelude data = Some (h, lid, mid)" and
    b: "bind (frame_of env h) (assign_y ''demand'') = (t, Cont df)"
    by (auto simp: demand_frame_def split: option.splits prod.splits outcome.splits)
  from bind_eq_ContD [OF b] obtain t1 df0 t2 where
    "frame_of env h = (t1, Cont df0)" "assign_y ''demand'' df0 = (t2, Cont df)" by blast
  moreover from this silent_frame_of [of env h] silent_assign_y [of "''demand''" df0]
  have "t1 = []" "t2 = []" by auto
  ultimately show ?thesis using p by blast
qed

lemma demand_prelude_SomeD:
  "demand_prelude data = Some (h, lid, mid) \<Longrightarrow>
     py_getitem data ''historicalData'' = Inr h \<and> py_getitem data ''locationId'' = Inr lid
     \<and> py_getitem data ''modelId'' = Inr mid"
  by (auto simp: demand_prelude_def split: if_splits sum.splits)

lemma demand_run_via_frame:
  assumes "demand_frame env data = Some df"
  shows "\<exists>h lid mid. demand_prelude data = Some (h, lid, mid)
           \<and> predict_demand env data
               = respond
                   (catch
                      (seq (check_demand_values env df)
                        (seq (check_density_demand df)
                          (seq (log_gaps_demand env df) (demand_forecast env data df lid mid))))
                      data_processing_handler)
                   fatal_handler"
proof -
  from demand_frame_SomeD [OF assms] obtain h lid mid df0 where
    p: "demand_prelude data = Some (h, lid, mid)" and
    f: "frame_of env h = ([], Cont df0)" "assign_y ''demand'' df0 = ([], Cont df)" by blast
  have "demand_body env data h lid mid =
          seq (check_demand_values env df)
            (seq (check_density_demand df)
              (seq (log_gaps_demand env df) (demand_forecast env data df lid mid)))"
    by (simp add: demand_body_def bind_Cont [OF f(1)] bind_Cont [OF f(2)])
  with predict_demand_via_prelude [OF p, of env] p show ?thesis by simp
qed

lemma successful_demand_frame:
  assumes "demand_frame env data = Some df" and "snd (predict_demand env data) = Demand_ok r"
  shows "\<exists>lid mid t. demand_forecast env data df lid mid = (t, Cont (Demand_ok r))"
proof -
  from demand_frame_SomeD [OF assms(1)] obtain h lid mid df0 where
    p: "demand_prelude data = Some (h, lid, mid)" and
    f: "frame_of env h = ([], Cont df0)" "assign_y ''demand'' df0 = ([], Cont df)" by blast
  from assms(2) have "predict_demand env data = (fst (predict_demand env data), Demand_ok r)"
    by (metis prod.collapse)
  from predict_demand_ok [OF this] demand_prelude_SomeD [OF p] obtain t'
    where "demand_body env data h lid mid = (t', Cont (Demand_ok r))" by auto
  from demand_body_ok [OF this] f show ?thesis by auto
qed

subsection \<open>Traces\<close>

lemma fst_bind: "fst (bind m f) = fst m @ (case snd m of Cont x \<Rightarrow> fst (f x) | _ \<Rightarrow> [])"
  by (cases m) (auto simp: bind_def split: outcome.splits prod.splits)

lemma fst_seq: "fst (seq m k) = fst m @ (case snd m of Cont x \<Rightarrow> fst k | _ \<Rightarrow> [])"
  by (simp add: seq_def fst_bind)

lemma fst_catch: "fst (catch m h) = fst m"
  by (cases m) (auto simp: catch_def split: outcome.splits)

lemma fst_respond: "fst (respond m h) = fst m"
  by (cases m) (auto simp: respond_def split: outcome.splits)

lemma engine_fit_trace: "fst (engine_fit env cfg frame) = [Engine_fit cfg frame]"
  by (simp add: engine_fit_def fst_seq emit_def silent_basic)

lemma forecast_series_trace:
  "\<exists>rest. fst (forecast_series env cfg frame periods) = Engine_fit cfg frame # rest"
  by (simp add: forecast_series_def fst_bind engine_fit_trace)

subsection \<open>Cleaning of a supplier series\<close>

lemma filter_not_null_numeric:
  "filter (\<lambda>r. is_numeric env (snd r)) (filter (\<lambda>r. \<not> is_null (snd r)) rows)
     = filter (\<lambda>r. is_numeric env (snd r)) rows"
proof -
  have "is_numeric env c \<Longrightarrow> \<not> is_null c" for c
    by (cases c rule: is_null.cases) (auto simp: is_numeric_def)
  then show ?thesis by (induction rows) auto
qed

lemma to_numeric_coerced:
  "is_numeric env c \<Longrightarrow> to_numeric env (Some (JFloat (the (to_numeric env c)))) = to_numeric env c"
  by (auto simp: is_numeric_def split: option.splits)

lemma coerced_rows:
  "list_all (\<lambda>r. is_numeric env (snd r)) xs \<Longrightarrow>
     map (\<lambda>x. (fst x, to_numeric env (snd x)))
       (zip (map fst xs) (map (\<lambda>x. Some (JFloat (the (to_numeric env (snd x))))) xs))
     = map (\<lambda>r. (fst r, to_numeric env (snd r))) xs"
  by (induction xs) (auto simp: is_numeric_def split: option.splits)

lemma clean_series_result:
  "\<exists>frame.
     clean_series env label tss col
       = ((if list_ex is_null (map snd (zip tss col))
           then [Warn_nulls label (length (filter (\<lambda>r. is_null (snd r)) (zip tss col)))] else [])
          @ (if list_all (\<lambda>r. is_numeric env (snd r)) (filter (\<lambda>r. \<not> is_null (snd r)) (zip tss col))
             then [] else [Warn_non_numeric label]),
          Cont frame)
     \<and> ff_regressors frame = []
     \<and> length (ff_ds frame) = length (ff_y frame)
     \<and> list_all (is_numeric env) (ff_y frame)
     \<and> map (\<lambda>r. (fst r, to_numeric env (snd r))) (zip (ff_ds frame) (ff_y frame))
         = map (\<lambda>r. (fst r, to_numeric env (snd r)))
             (filter (\<lambda>r. is_numeric env (snd r)) (zip tss col))"
proof -
  define rows where "rows = zip tss col"
  define rows1 where "rows1 = filter (\<lambda>r. \<not> is_null (snd r)) rows"
  have nn: "filter (\<lambda>r. is_numeric env (snd r)) rows1 = filter (\<lambda>r. is_numeric env (snd r)) rows"
    unfolding rows1_def by (rule filter_not_null_numeric)
  have ex: "list_ex (\<lambda>r. is_null (snd r)) rows = list_ex is_null (map snd rows)"
    by (simp add: list_ex_iff)
  have r1: "\<not> list_ex (\<lambda>r. is_null (snd r)) rows \<Longrightarrow> rows1 = rows"
    by (auto simp: rows1_def list_ex_iff intro: filter_True)
  show ?thesis
  proof (cases "list_all (\<lambda>r. is_numeric env (snd r)) rows1")
    case True
    then have id: "filter (\<lambda>r. is_numeric env (snd r)) rows1 = rows1"
      by (auto simp: list_all_iff intro: filter_True)
    let ?frame = "\<lparr>ff_ds = map fst rows1, ff_y = map snd rows1, ff_regressors = []\<rparr>"
    have "clean_series env label tss col
       = ((if list_ex is_null (map snd rows)
           then [Warn_nulls label (length (filter (\<lambda>r. is_null (snd r)) rows))] else [])
          @ [], Cont ?frame)"
      using True r1
      by (auto simp: clean_series_def Let_def comp_defs ex rows_def [symmetric] rows1_def [symmetric])
    moreover have "list_all (is_numeric env) (ff_y ?frame)"
      using True by (simp add: list_all_iff)
    moreover have "map (\<lambda>r. (fst r, to_numeric env (snd r))) (zip (ff_ds ?frame) (ff_y ?frame))
         = map (\<lambda>r. (fst r, to_numeric env (snd r))) (filter (\<lambda>r. is_numeric env (snd r)) rows)"
      using id nn by (simp add: zip_map_fst_snd)
    ultimately show ?thesis using True
      by (auto simp: rows_def rows1_def)
  next
    case False
    let ?kept = "filter (\<lambda>r. is_numeric env (snd r)) rows1"
    let ?rows2 = "map (\<lambda>r. (fst r, Some (JFloat (the (to_numeric env (snd r)))))) ?kept"
    let ?frame = "\<lparr>ff_ds = map fst ?rows2, ff_y = map snd ?rows2, ff_regressors = []\<rparr>"
    have "clean_series env label tss col
       = ((if list_ex is_null (map snd rows)
           then [Warn_nulls label (length (filter (\<lambda>r. is_null (snd r)) rows))] else [])
          @ [Warn_non_numeric label], Cont ?frame)"
      using False r1
      by (auto simp: clean_series_def Let_def comp_defs ex rows_def [symmetric] rows1_def [symmetric])
    moreover have "list_all (is_numeric env) (ff_y ?frame)"
      by (simp add: list_all_iff is_numeric_def)
    moreover have "map (\<lambda>r. (fst r, to_numeric env (snd r))) (zip (ff_ds ?frame) (ff_y ?frame))
         = map (\<lambda>r. (fst r, to_numeric env (snd r))) (filter (\<lambda>r. is_numeric env (snd r)) rows)"
      unfolding nn [symmetric]
      using coerced_rows [of env ?kept] by (simp add: list_all_iff o_def)
    ultimately show ?thesis using False
      by (auto simp: rows_def rows1_def)
  qed
qed


subsection \<open>What validation guarantees\<close>

lemma check_field_okD:
  "check_field data (f, ty) = (t, Cont []) \<Longrightarrow> \<exists>v. py_getitem data f = Inr v \<and> isinstance v ty"
  by (auto simp: check_field_def comp_defs split: sum.splits if_splits)

lemma check_fields_okD:
  "check_fields data fts = (t, Cont []) \<Longrightarrow> (f, ty) \<in> set fts \<Longrightarrow>
     \<exists>v. py_getitem data f = Inr v \<and> isinstance v ty"
proof (induction fts arbitrary: t)
  case Nil
  then show ?case by simp
next
  case (Cons ft rest)
  from Cons.prems(1) obtain t1 a t2 b where
    a: "check_field data ft = (t1, Cont a)" and b: "check_fields data rest = (t2, Cont b)"
    and ab: "a @ b = []"
    by (fastforce dest!: bind_eq_ContD ret_eq_ContD)
  show ?case
  proof (cases "(f, ty) = ft")
    case True
    with a ab check_field_okD [of data f ty t1] show ?thesis by auto
  next
    case False
    with Cons.prems(2) have "(f, ty) \<in> set rest" by auto
    with Cons.IH [of t2] b ab show ?thesis by auto
  qed
qed

lemma check_point_fields_okD:
  "check_point_fields p fs = (t, Cont []) \<Longrightarrow> f \<in> set fs \<Longrightarrow> py_contains f p = Inr True"
proof (induction fs arbitrary: t)
  case Nil
  then show ?case by simp
next
  case (Cons g rest)
  from Cons.prems(1) obtain present t2 b where
    a: "py_contains g p = Inr present" and b: "check_point_fields p rest = (t2, Cont b)"
    and ab: "(if present then [] else [''Missing required field in historicalData points: '' @ g]) @ b = []"
    by (fastforce dest!: bind_eq_ContD ret_eq_ContD lift_eq_ContD)
  from ab have "present" "b = []" by (auto split: if_splits)
  with a b Cons.IH [of t2] Cons.prems(2) show ?case by auto
qed

lemma validate_with_okD:
  assumes "validate_with fts fs data = (t, Cont [])"
  shows "(\<exists>t'. check_fields data fts = (t', Cont []))
         \<and> (\<exists>p ps t'. py_getitem data ''historicalData'' = Inr (JList (p # ps))
                       \<and> check_point_fields p fs = (t', Cont []))"
  using assms unfolding validate_with_def
  by (auto dest!: bind_eq_ContD lift_eq_ContD ret_eq_ContD
      simp: raise_def split: if_splits json.splits list.splits)

lemma as_periods_int: "isinstance v T_int \<Longrightarrow> \<exists>i. as_periods v = Inr i"
  by (cases v) auto

lemma supplier_prelude_valid:
  assumes "supplier_prelude data = Some (h, fp, sid)"
  shows "(\<exists>periods. as_periods fp = Inr periods)
         \<and> (\<exists>p ps. h = JList (p # ps) \<and> py_contains ''qualityRating'' p = Inr True
                     \<and> py_contains ''leadTimeReliability'' p = Inr True)"
proof -
  from supplier_prelude_SomeD [OF assms] have
    v: "validate_supplier_performance_input data = ([], Cont [])" and
    h: "py_getitem data ''historicalData'' = Inr h" and
    fp: "py_get data ''futurePeriods'' (JInt 90) = Inr fp" by auto
  from validate_with_okD [OF v [unfolded validate_supplier_performance_input_def]]
  obtain t' p ps t'' where
    c: "check_fields data [(''historicalData'', T_list), (''futurePeriods'', T_int), (''supplierId'', T_str)]
          = (t', Cont [])" and
    hp: "py_getitem data ''historicalData'' = Inr (JList (p # ps))" and
    cp: "check_point_fields p [''date'', ''qualityRating'', ''leadTimeReliability''] = (t'', Cont [])"
    by blast
  from check_fields_okD [OF c, of "''futurePeriods''" T_int] obtain v where
    "py_getitem data ''futurePeriods'' = Inr v" "isinstance v T_int" by auto
  with fp py_getitem_get [of data "''futurePeriods''" v "JInt 90"] as_periods_int [of v]
  have "\<exists>periods. as_periods fp = Inr periods" by auto
  moreover from h hp have "h = JList (p # ps)" by simp
  moreover from check_point_fields_okD [OF cp] have
    "py_contains ''qualityRating'' p = Inr True" "py_contains ''leadTimeReliability'' p = Inr True"
    by auto
  ultimately show ?thesis by blast
qed

subsection \<open>Columns of the frame\<close>

lemma map_raising_length: "map_raising f xs = (t, Cont ys) \<Longrightarrow> length ys = length xs"
proof (induction xs arbitrary: t ys)
  case Nil
  then show ?case by (simp add: ret_def)
next
  case (Cons x xs)
  from Cons.prems obtain y t2 ys' where "map_raising f xs = (t2, Cont ys')" "ys = y # ys'"
    by (fastforce dest!: bind_eq_ContD ret_eq_ContD lift_eq_ContD)
  with Cons.IH show ?case by auto
qed

lemma map_of_tabulate: "map_of (map (\<lambda>c. (c, g c)) names) k = (if k \<in> set names then Some (g k) else None)"
  by (induction names) auto

lemma build_frame_column:
  assumes "build_frame env points = (t, Cont df)"
    and "JObj kvs \<in> set points" and "map_of kvs k \<noteq> None"
  shows "\<exists>col. column df k = Inr col \<and> length col = length (df_ds df)"
proof -
  define rows where "rows = map (\<lambda>p. the (fields p)) points"
  define names where "names = rev (remdups (rev (concat (map (map fst) rows))))"
  define cols where "cols = map (\<lambda>c. (c, map (\<lambda>row. map_of row c) rows)) names"
  from assms(1) obtain dates where
    ok: "\<not> list_ex (\<lambda>p. fields p = None) points" "map_of cols ''date'' = Some dates"
    and b: "bind (map_raising (to_datetime env dates) dates)
              (\<lambda>tss. ret \<lparr>df_ds = tss, df_cols = cols\<rparr>) = (t, Cont df)"
    by (auto simp: build_frame_def Let_def raise_def rows_def names_def cols_def
        split: if_splits option.splits)
  from b obtain tss t1 where
    m: "map_raising (to_datetime env dates) dates = (t1, Cont tss)"
    and df: "df = \<lparr>df_ds = tss, df_cols = cols\<rparr>"
    by (fastforce dest!: bind_eq_ContD ret_eq_ContD)
  from ok(2) have "dates = map (\<lambda>row. map_of row ''date'') rows"
    by (auto simp: cols_def map_of_tabulate split: if_splits)
  with map_raising_length [OF m] have len: "length tss = length rows" by simp
  from assms(2) have "kvs \<in> set rows" by (force simp: rows_def)
  moreover from assms(3) have "k \<in> fst ` set kvs" by (simp add: map_of_eq_None_iff)
  ultimately have "k \<in> set names" by (auto simp: names_def)
  then have "map_of cols k = Some (map (\<lambda>row. map_of row k) rows)"
    by (simp add: cols_def map_of_tabulate)
  with df len show ?thesis by (simp add: column_def)
qed

lemma frame_of_column:
  assumes "frame_of env (JList (p # ps)) = (t, Cont df)" and "py_contains k p = Inr True"
  shows "\<exists>col. column df k = Inr col \<and> length col = length (df_ds df)"
proof -
  from assms(1) have b: "build_frame env (p # ps) = (t, Cont df)" by (simp add: frame_of_def)
  then have "fields p \<noteq> None"
    by (auto simp: build_frame_def raise_def split: if_splits)
  then obtain kvs where p: "p = JObj kvs" by (cases p) auto
  with assms(2) have "map_of kvs k \<noteq> None" by simp
  with build_frame_column [OF b, of kvs k] p show ?thesis by auto
qed

subsection \<open>The supplier run from its frame on\<close>

lemma supplier_frame_SomeD:
  assumes "supplier_frame env data = Some df"
  shows "\<exists>h fp sid. supplier_prelude data = Some (h, fp, sid) \<and> frame_of env h = ([], Cont df)"
proof -
  from assms obtain h fp sid t where
    p: "supplier_prelude data = Some (h, fp, sid)" and f: "frame_of env h = (t, Cont df)"
    by (auto simp: supplier_frame_def split: option.splits prod.splits outcome.splits)
  with silent_frame_of [of env h] show ?thesis by auto
qed

lemma supplier_run_via_frame:
  assumes "supplier_frame env data = Some df"
  shows "\<exists>h fp sid periods qcol lcol.
           supplier_prelude data = Some (h, fp, sid) \<and> as_periods fp = Inr periods
           \<and> column df ''qualityRating'' = Inr qcol \<and> length qcol = length (df_ds df)
           \<and> column df ''leadTimeReliability'' = Inr lcol \<and> length lcol = length (df_ds df)
           \<and> predict_supplier_performance env data
               = respond
                   (catch
                      (seq (check_density_supplier df)
                        (seq (log_gaps_supplier env df)
                          (supplier_forecast env df fp periods sid)))
                      data_processing_handler)
                   fatal_handler"
proof -
  from supplier_frame_SomeD [OF assms] obtain h fp sid where
    p: "supplier_prelude data = Some (h, fp, sid)" and f: "frame_of env h = ([], Cont df)" by blast
  from supplier_prelude_valid [OF p] obtain periods pt ps where
    per: "as_periods fp = Inr periods" and h: "h = JList (pt # ps)" and
    c: "py_contains ''qualityRating'' pt = Inr True" "py_contains ''leadTimeReliability'' pt = Inr True"
    by blast
  from frame_of_column [OF f [unfolded h] c(1)] frame_of_column [OF f [unfolded h] c(2)]
  obtain qcol lcol where
    cols: "column df ''qualityRating'' = Inr qcol" "length qcol = length (df_ds df)"
          "column df ''leadTimeReliability'' = Inr lcol" "length lcol = length (df_ds df)"
    by blast
  have "supplier_body env h fp sid =
          seq (check_density_supplier df)
            (seq (log_gaps_supplier env df) (supplier_forecast env df fp periods sid))"
    by (simp add: supplier_body_def bind_Cont [OF f] per lift_def bind_ret)
  with predict_supplier_via_prelude [OF p, of env] p per cols show ?thesis by simp
qed

lemma log_gaps_supplier_Cont: "\<exists>t. log_gaps_supplier env df = (t, Cont ())"
  by (simp add: log_gaps_supplier_def Let_def emit_def ret_def)

lemma check_density_supplier_eq:
  "check_density_supplier df
     = ((if below_threshold (density df) then [Warn_low_density (density df)] else []), Cont ())"
  by (simp add: check_density_supplier_def emit_def ret_def)

lemma supplier_forecast_quality_trace:
  assumes "column df ''qualityRating'' = Inr col"
    and "clean_series env ''quality'' (df_ds df) col = (w, Cont frame)"
  shows "\<exists>rest. fst (supplier_forecast env df fp periods sid)
                  = w @ Engine_fit (quality_config) frame # rest"
proof -
  from forecast_series_trace [of env "quality_config" frame periods] obtain r1
    where "fst (forecast_series env (quality_config) frame periods)
             = Engine_fit (quality_config) frame # r1" by blast
  then show ?thesis
    by (simp add: supplier_forecast_def assms fst_bind lift_def ret_def)
qed

lemma supplier_forecast_lead_time_trace:
  assumes "column df ''qualityRating'' = Inr qcol"
    and "clean_series env ''quality'' (df_ds df) qcol = (wq, Cont qframe)"
    and "forecast_series env (quality_config) qframe periods = (tq, Cont qf)"
    and "column df ''leadTimeReliability'' = Inr lcol"
    and "clean_series env ''lead time'' (df_ds df) lcol = (wl, Cont lframe)"
  shows "\<exists>rest. fst (supplier_forecast env df fp periods sid)
                  = wq @ tq @ wl @ Engine_fit (lead_time_config) lframe # rest"
proof -
  from forecast_series_trace [of env "lead_time_config" lframe periods] obtain r1
    where "fst (forecast_series env (lead_time_config) lframe periods)
             = Engine_fit (lead_time_config) lframe # r1" by blast
  then show ?thesis
    by (simp add: supplier_forecast_def assms fst_bind lift_def ret_def)
qed

lemma supplier_trace_via_frame:
  assumes "supplier_frame env data = Some df"
  shows "\<exists>h fp sid periods gaps.
           supplier_prelude data = Some (h, fp, sid) \<and> as_periods fp = Inr periods
           \<and> log_gaps_supplier env df = (gaps, Cont ())
           \<and> fst (predict_supplier_performance env data)
               = (if below_threshold (density df) then [Warn_low_density (density df)] else [])
                 @ gaps @ fst (supplier_forecast env df fp periods sid)"
proof -
  from supplier_run_via_frame [OF assms] obtain h fp sid periods where
    p: "supplier_prelude data = Some (h, fp, sid)" "as_periods fp = Inr periods" and
    r: "predict_supplier_performance env data
               = respond
                   (catch
                      (seq (check_density_supplier df)
                        (seq (log_gaps_supplier env df)
                          (supplier_forecast env df fp periods sid)))
                      data_processing_handler)
                   fatal_handler" by blast
  from log_gaps_supplier_Cont [of env df] obtain gaps where g: "log_gaps_supplier env df = (gaps, Cont ())"
    by blast
  from r g have "fst (predict_supplier_performance env data)
               = (if below_threshold (density df) then [Warn_low_density (density df)] else [])
                 @ gaps @ fst (supplier_forecast env df fp periods sid)"
    by (simp add: fst_respond fst_catch fst_seq check_density_supplier_eq)
  with p g show ?thesis by blast
qed

lemma clean_series_warns:
  assumes "length col = length tss"
    and "list_ex is_null col \<or> \<not> list_all (is_numeric env) col"
  shows "\<exists>warnings frame.
           clean_series env label tss col = (warnings, Cont frame)
           \<and> warnings \<noteq> []
           \<and> set warnings \<subseteq> {Warn_nulls label (length (filter is_null col)), Warn_non_numeric label}
           \<and> list_all (is_numeric env) (ff_y frame)
           \<and> map (\<lambda>r. (fst r, to_numeric env (snd r))) (zip (ff_ds frame) (ff_y frame))
               = map (\<lambda>r. (fst r, to_numeric env (snd r)))
                   (filter (\<lambda>r. is_numeric env (snd r)) (zip tss col))"
proof -
  from assms(1) have snd_zip: "map snd (zip tss col) = col" by simp
  have "length (filter is_null (map snd (zip tss col)))
          = length (filter (\<lambda>r. is_null (snd r)) (zip tss col))"
    by (simp add: filter_map o_def)
  with snd_zip have cnt:
    "length (filter (\<lambda>r. is_null (snd r)) (zip tss col)) = length (filter is_null col)"
    by simp
  have nonnull: "\<not> list_ex is_null col \<Longrightarrow>
      list_all (\<lambda>r. is_numeric env (snd r)) (filter (\<lambda>r. \<not> is_null (snd r)) (zip tss col))
        = list_all (is_numeric env) col"
  proof -
    assume "\<not> list_ex is_null col"
    then have "filter (\<lambda>r. \<not> is_null (snd r)) (zip tss col) = zip tss col"
      using snd_zip by (auto simp: list_ex_iff intro!: filter_True dest: set_zip_rightD)
    moreover have "list_all (\<lambda>r. is_numeric env (snd r)) (zip tss col)
                     = list_all (is_numeric env) (map snd (zip tss col))"
      by (simp add: list_all_iff)
    ultimately show ?thesis using snd_zip by simp
  qed
  from clean_series_result [of env label tss col] obtain frame where
    c: "clean_series env label tss col
       = ((if list_ex is_null (map snd (zip tss col))
           then [Warn_nulls label (length (filter (\<lambda>r. is_null (snd r)) (zip tss col)))] else [])
          @ (if list_all (\<lambda>r. is_numeric env (snd r)) (filter (\<lambda>r. \<not> is_null (snd r)) (zip tss col))
             then [] else [Warn_non_numeric label]),
          Cont frame)" and
    f: "list_all (is_numeric env) (ff_y frame)"
       "map (\<lambda>r. (fst r, to_numeric env (snd r))) (zip (ff_ds frame) (ff_y frame))
         = map (\<lambda>r. (fst r, to_numeric env (snd r)))
             (filter (\<lambda>r. is_numeric env (snd r)) (zip tss col))"
    by blast
  let ?w = "(if list_ex is_null col then [Warn_nulls label (length (filter is_null col))] else [])
          @ (if list_all (\<lambda>r. is_numeric env (snd r)) (filter (\<lambda>r. \<not> is_null (snd r)) (zip tss col))
             then [] else [Warn_non_numeric label])"
  from c have c': "clean_series env label tss col = (?w, Cont frame)"
    by (simp add: snd_zip cnt)
  have "?w \<noteq> []" using assms(2) nonnull by auto
  moreover have "set ?w \<subseteq> {Warn_nulls label (length (filter is_null col)), Warn_non_numeric label}"
    by auto
  ultimately show ?thesis using c' f by blast
qed

subsection \<open>Properties of every event of a run\<close>

lemma events_all_silent: "fst m = [] \<Longrightarrow> events_all Q m"
  by (simp add: events_all_def)

lemma events_all_basic:
  "events_all Q (ret x)" "events_all Q (raise e)" "events_all Q (reply r)" "events_all Q (lift y)"
  by (simp_all add: events_all_def silent_basic)

lemma events_all_emit: "Q e \<Longrightarrow> events_all Q (emit e)"
  by (simp add: events_all_def emit_def)

lemma events_all_bind:
  assumes "events_all Q m" and "\<And>x. events_all Q (f x)"
  shows "events_all Q (bind m f)"
  using assms by (auto simp: events_all_def fst_bind split: outcome.splits)

lemma events_all_seq: "events_all Q m \<Longrightarrow> events_all Q k \<Longrightarrow> events_all Q (seq m k)"
  by (simp add: seq_def events_all_bind)

lemma events_all_recover:
  assumes "events_all Q m" and "\<And>e. snd m = Raise e \<Longrightarrow> events_all Q (h e)"
  shows "events_all Q (recover m h)"
proof (cases m)
  case (Pair t out)
  with assms show ?thesis
    by (cases out) (auto simp: events_all_def recover_def split: prod.splits)
qed




lemmas events_all_intros =
  events_all_basic events_all_emit events_all_bind events_all_seq

lemma events_all_map_raising: "events_all Q (map_raising f xs)"
  by (simp add: events_all_silent silent_map_raising)







lemma events_all_check_demand_values: "events_all Q (check_demand_values env df)"
  by (auto simp: check_demand_values_def intro!: events_all_intros)

lemma events_all_check_density_demand: "events_all Q (check_density_demand df)"
  by (auto simp: check_density_demand_def intro!: events_all_intros)


lemma routine_log_each_gap: "events_all routine (log_each_gap rows idxs)"
  by (induction idxs) (auto simp: routine_def intro!: events_all_intros)

lemma routine_log_gaps_demand: "events_all routine (log_gaps_demand env df)"
  by (auto simp: log_gaps_demand_def Let_def routine_def
      intro!: events_all_intros routine_log_each_gap)


lemma routine_engine:
  "cfg \<noteq> projection_config \<Longrightarrow> events_all routine (engine_fit env cfg frame)"
  "events_all routine (engine_make_future env m p h)"
  "events_all routine (engine_predict env m fu)"
  by (auto simp: engine_fit_def engine_make_future_def engine_predict_def routine_def
      intro!: events_all_intros)

lemma routine_attach_regressors: "events_all routine (attach_regressors n frs)"
  by (induction n frs rule: attach_regressors.induct)
     (auto simp: routine_def intro!: events_all_intros split: json.splits)




subsection \<open>The strength blocks never divide by zero\<close>

lemma py_div_positive: "py_less (Finite 0) y \<Longrightarrow> \<exists>q. py_div c y = Inr q"
  by (cases y; cases c) auto

lemma strength_value: "\<exists>q. strength c y = ([], Cont q)"
  using py_div_positive [of y c]
  by (auto simp: strength_def usable_def comp_defs)






lemma demand_strengths_yearly:
  assumes "fc_has_yearly fc"
  shows "\<exists>qs qt.
           strength (series_std env (map yearly (fc_rows fc))) (series_std env (map yhat (fc_rows fc)))
             = ([], Cont qs)
           \<and> strength (series_std env (map trend (fc_rows fc))) (series_std env (map yhat (fc_rows fc)))
             = ([], Cont qt)
           \<and> demand_strengths env fc = ([], Cont (qs, qt))"
proof -
  from strength_value obtain qs where
    s: "strength (series_std env (map yearly (fc_rows fc))) (series_std env (map yhat (fc_rows fc)))
          = ([], Cont qs)" by blast
  from strength_value obtain qt where
    t: "strength (series_std env (map trend (fc_rows fc))) (series_std env (map yhat (fc_rows fc)))
          = ([], Cont qt)" by blast
  from assms s t have "demand_strengths env fc = ([], Cont (qs, qt))"
    by (simp add: demand_strengths_def yearly_column_def Let_def comp_defs)
  with s t show ?thesis by blast
qed

lemma demand_strengths_no_yearly:
  "\<not> fc_has_yearly fc \<Longrightarrow>
     demand_strengths env fc = ([Warn_strength_error (KeyError ''yearly'')], Cont (Finite 0, Finite 0))"
  by (simp add: demand_strengths_def yearly_column_def comp_defs)




lemma routine_demand_strengths: "events_all routine (demand_strengths env fc)"
  by (cases "fc_has_yearly fc")
     (use demand_strengths_yearly [of fc env] in
       \<open>auto simp: demand_strengths_no_yearly events_all_def routine_def\<close>)


lemma demand_config_not_projection: "demand_config rs \<noteq> projection_config"
  by (simp add: demand_config_def projection_config_def default_config_def)


lemma routine_demand_model: "events_all routine (demand_model env df lid mid fp periods frs)"
  by (auto simp: demand_model_def Let_def
      intro!: events_all_intros routine_engine routine_attach_regressors routine_demand_strengths
        demand_config_not_projection)



subsection \<open>No record of a division error\<close>









subsection \<open>Strength metrics\<close>

lemma engine_predict_ContD:
  "engine_predict env m fu = (t, Cont fc) \<Longrightarrow> predict env m fu = Inr fc"
  by (auto simp: engine_predict_def dest!: seq_eq_ContD lift_eq_ContD)












subsection \<open>Regressor resolution\<close>

lemma mti_supplied_response:
  "predict_demand (example_env True) mti_supplied_request
     = (mti_supplied_trace, Demand_ok mti_supplied_result)"
  by (simp add: mti_supplied_request_def mti_supplied_result_def mti_supplied_trace_def
      example_demand_forecast_def demand_defs run_defs)

lemma mti_supplied_demand_frame:
  "demand_frame (example_env True) mti_supplied_request = Some mti_supplied_frame"
  by (simp add: demand_frame_def demand_prelude_def mti_supplied_request_def
      mti_supplied_frame_def log_request_def run_defs)

text \<open>
  C3. \<open>debugInfo.generatedRegressors\<close> lists the regressors whose future values were projected,
  and not those the caller supplied. The handler fills it with the keys of
  \<open>future_regressors\<close>, which hold caller-supplied values as well: for \<open>mti_supplied_request\<close>
  the MTI values are the caller's, the engine is invoked for the demand model only, and
  \<open>generatedRegressors\<close> is \<open>["mti"]\<close>.
\<close>

theorem supplied_mti_is_listed_as_generated:
  "map_option (dd_generatedRegressors \<circ> dr_debugInfo)
     (demand_result_of (snd (predict_demand (example_env True) mti_supplied_request)))
     = Some [''mti'']
   \<and> map_option dr_future_mti
       (demand_result_of (snd (predict_demand (example_env True) mti_supplied_request)))
       = Some (JList [JInt 3, JInt 4])
   \<and> fst (predict_demand (example_env True) mti_supplied_request) = mti_supplied_trace"
  by (simp add: mti_supplied_response mti_supplied_result_def)

subsection \<open>Fits of a regressor model in a run\<close>

lemma filter_fst_bind:
  "filter P (fst (bind m f))
     = filter P (fst m) @ (case snd m of Cont x \<Rightarrow> filter P (fst (f x)) | _ \<Rightarrow> [])"
  by (simp add: fst_bind split: outcome.splits)

lemma filter_fst_seq:
  "filter P (fst (seq m k))
     = filter P (fst m) @ (case snd m of Cont x \<Rightarrow> filter P (fst k) | _ \<Rightarrow> [])"
  by (simp add: fst_seq split: outcome.splits)

lemma routine_no_fit: "events_all routine m \<Longrightarrow> filter projection_fit (fst m) = []"
  by (auto simp: events_all_def routine_def list_all_iff filter_empty_conv)

lemma silent_no_fit: "fst m = [] \<Longrightarrow> filter P (fst m) = []"
  by simp

lemma no_fit_bind:
  assumes "filter P (fst m) = []" and "\<And>x. filter P (fst (f x)) = []"
  shows "filter P (fst (bind m f)) = []"
  using assms by (simp add: filter_fst_bind split: outcome.splits)

lemma predict_regressor_fits:
  "filter projection_fit (fst (predict_regressor env df ''inflation'' periods lid))
     \<in> {[], [Engine_fit projection_config (inflation_history df lid)]}"
proof (cases "column (scope_to_location df lid) ''inflation''")
  case (Inl e)
  then show ?thesis
    by (simp add: predict_regressor_def Let_def comp_defs)
next
  case (Inr col)
  have rest: "filter projection_fit
          (fst (bind (engine_make_future env model periods True) (\<lambda>future.
                bind (engine_predict env model \<lparr>fu_ds = future, fu_regressors = []\<rparr>) (\<lambda>forecast.
                  ret (future_values last_ds forecast))))) = []" for model last_ds
    by (rule routine_no_fit) (auto intro!: events_all_intros routine_engine)
  have "filter projection_fit (fst (predict_regressor env df ''inflation'' periods lid))
          = [Engine_fit projection_config (inflation_history df lid)]"
    using Inr rest
    by (simp add: predict_regressor_def Let_def lift_def bind_ret filter_fst_bind
        engine_fit_trace inflation_history_def split: outcome.splits)
  then show ?thesis by simp
qed

lemma handle_inflation_fits:
  "filter projection_fit (fst (handle_inflation env df periods lid)) = []
   \<or> has_column df ''inflation''
     \<and> filter projection_fit (fst (handle_inflation env df periods lid))
         = [Engine_fit projection_config (inflation_history df lid)]"
proof (cases "has_column df ''inflation''")
  case False
  then show ?thesis by (simp add: handle_inflation_def ret_def)
next
  case True
  have "filter projection_fit (fst (handle_inflation env df periods lid))
          = filter projection_fit (fst (predict_regressor env df ''inflation'' periods lid))"
    using True by (simp add: handle_inflation_def filter_fst_bind ret_def split: outcome.splits)
  with predict_regressor_fits [of env df periods lid] True show ?thesis by auto
qed


lemma supplied_mti_step:
  assumes "has_column df ''mti''"
    and "py_getitem data ''futureRegressors'' = Inr fr"
    and "py_getitem fr ''mti'' = Inr v"
  shows "handle_mti env data df periods = ([], Cont [(''mti'', v)])"
  using assms py_getitem_contains [OF assms(2)] py_getitem_contains [OF assms(3)]
  by (simp add: handle_mti_def comp_defs)

lemma demand_forecast_fits:
  assumes "\<And>periods. handle_mti env data df periods = ([], Cont mti)"
  shows "filter projection_fit (fst (demand_forecast env data df lid mid)) = []
         \<or> has_column df ''inflation''
           \<and> filter projection_fit (fst (demand_forecast env data df lid mid))
               = [Engine_fit projection_config (inflation_history df lid)]"
proof (cases "py_get data ''futurePeriods'' (JInt 90)")
  case (Inl e)
  then show ?thesis by (simp add: demand_forecast_def comp_defs)
next
  case fp: (Inr fp)
  show ?thesis
  proof (cases "as_periods fp")
    case (Inl e)
    with fp show ?thesis by (simp add: demand_forecast_def comp_defs)
  next
    case (Inr periods)
    have model: "filter projection_fit (fst (demand_model env df lid mid fp periods frs)) = []" for frs
      by (rule routine_no_fit [OF routine_demand_model])
    have "filter projection_fit (fst (demand_forecast env data df lid mid))
            = filter projection_fit (fst (handle_inflation env df periods lid))"
      using fp Inr assms [of periods] model
      by (simp add: demand_forecast_def lift_def bind_ret bind_Cont [OF assms [of periods]]
          filter_fst_bind split: outcome.splits)
    with handle_inflation_fits [of env df periods lid] show ?thesis by auto
  qed
qed

lemma demand_run_fits:
  assumes "demand_frame env data = Some df"
  shows "\<exists>h lid mid. demand_prelude data = Some (h, lid, mid)
           \<and> (filter projection_fit (fst (predict_demand env data)) = []
                \<or> filter projection_fit (fst (predict_demand env data))
                    = filter projection_fit (fst (demand_forecast env data df lid mid)))"
proof -
  from demand_run_via_frame [OF assms] obtain h lid mid where
    p: "demand_prelude data = Some (h, lid, mid)" and
    r: "predict_demand env data
               = respond
                   (catch
                      (seq (check_demand_values env df)
                        (seq (check_density_demand df)
                          (seq (log_gaps_demand env df) (demand_forecast env data df lid mid))))
                      data_processing_handler)
                   fatal_handler" by blast
  have a: "filter projection_fit (fst (check_demand_values env df)) = []"
    using events_all_check_demand_values [of routine env df] by (rule routine_no_fit)
  have b: "filter projection_fit (fst (check_density_demand df)) = []"
    using events_all_check_density_demand [of routine df] by (rule routine_no_fit)
  have c: "filter projection_fit (fst (log_gaps_demand env df)) = []"
    by (rule routine_no_fit [OF routine_log_gaps_demand])
  have "filter projection_fit (fst (predict_demand env data)) = []
        \<or> filter projection_fit (fst (predict_demand env data))
            = filter projection_fit (fst (demand_forecast env data df lid mid))"
    by (simp add: r fst_respond fst_catch filter_fst_seq a b c split: outcome.splits)
  with p show ?thesis by blast
qed

subsection \<open>The trace of a successful demand run\<close>

lemma successful_demand_run:
  assumes "demand_frame env data = Some df" and "snd (predict_demand env data) = Demand_ok r"
  shows "\<exists>h lid mid t3 t4.
           demand_prelude data = Some (h, lid, mid)
           \<and> log_gaps_demand env df = (t3, Cont ())
           \<and> demand_forecast env data df lid mid = (t4, Cont (Demand_ok r))
           \<and> fst (predict_demand env data) = t3 @ t4"
proof -
  from demand_frame_SomeD [OF assms(1)] obtain h lid mid df0 where
    p: "demand_prelude data = Some (h, lid, mid)" and
    f: "frame_of env h = ([], Cont df0)" "assign_y ''demand'' df0 = ([], Cont df)" by blast
  from assms(2) have "predict_demand env data = (fst (predict_demand env data), Demand_ok r)"
    by (metis prod.collapse)
  from predict_demand_ok [OF this] demand_prelude_SomeD [OF p] obtain t'
    where b: "demand_body env data h lid mid = (t', Cont (Demand_ok r))" by auto
  from predict_demand_via_prelude [OF p, of env] b
  have t': "fst (predict_demand env data) = t'" by (simp add: fst_respond fst_catch)
  have "demand_body env data h lid mid =
          seq (check_demand_values env df)
            (seq (check_density_demand df)
              (seq (log_gaps_demand env df) (demand_forecast env data df lid mid)))"
    by (simp add: demand_body_def bind_Cont [OF f(1)] bind_Cont [OF f(2)])
  with b have "seq (check_demand_values env df)
            (seq (check_density_demand df)
              (seq (log_gaps_demand env df) (demand_forecast env data df lid mid)))
          = (t', Cont (Demand_ok r))"
    by simp
  then obtain t1 t2 t3 t4 where
    s: "check_demand_values env df = (t1, Cont ())" "check_density_demand df = (t2, Cont ())"
       "log_gaps_demand env df = (t3, Cont ())"
       "demand_forecast env data df lid mid = (t4, Cont (Demand_ok r))"
       "t' = t1 @ t2 @ t3 @ t4"
    by (fastforce dest!: seq_eq_ContD)
  from s(1) events_all_check_demand_values [of "\<lambda>e. False" env df] have "t1 = []"
    by (cases t1) (auto simp: events_all_def)
  moreover from s(2) events_all_check_density_demand [of "\<lambda>e. False" df] have "t2 = []"
    by (cases t2) (auto simp: events_all_def)
  ultimately show ?thesis using p s t' by auto
qed

lemma handle_mti_keys:
  assumes "handle_mti env data df periods = (t, Cont mti)"
  shows "map_of mti ''inflation'' = None"
  using assms
  by (auto simp: handle_mti_def project_mti_def Let_def
      dest!: bind_eq_ContD lift_eq_ContD ret_eq_ContD split: if_splits)

lemma handle_inflation_projected:
  assumes "has_column df ''inflation''"
    and "handle_inflation env df periods lid = (t, Cont inflation)"
  shows "\<exists>vs. predict_regressor env df ''inflation'' periods lid = (t, Cont vs)
           \<and> inflation = [(''inflation'', JList (map JFloat vs))]"
  using assms by (auto simp: handle_inflation_def dest!: bind_eq_ContD ret_eq_ContD)

lemma predict_regressor_trace:
  assumes "predict_regressor env df ''inflation'' periods lid = (t, Cont vs)"
  shows "\<exists>rest. t = Engine_fit projection_config (inflation_history df lid) # rest"
proof -
  from assms obtain col t1 t2 m where
    c: "column (scope_to_location df lid) ''inflation'' = Inr col" and
    f: "engine_fit env projection_config
          \<lparr>ff_ds = df_ds (scope_to_location df lid), ff_y = col, ff_regressors = []\<rparr> = (t1, Cont m)"
    and t: "t = t1 @ t2"
    unfolding predict_regressor_def Let_def
    by (fastforce dest!: bind_eq_ContD lift_eq_ContD)
  from f engine_fit_trace [of env projection_config
      "\<lparr>ff_ds = df_ds (scope_to_location df lid), ff_y = col, ff_regressors = []\<rparr>"]
  have "t1 = [Engine_fit projection_config
               \<lparr>ff_ds = df_ds (scope_to_location df lid), ff_y = col, ff_regressors = []\<rparr>]"
    by simp
  with c t show ?thesis by (simp add: inflation_history_def)
qed

subsection \<open>Caller-supplied future values\<close>

text \<open>
  C2, as amended. When the frame has an \<open>mti\<close> column and the request carries future MTI
  values in \<open>futureRegressors\<close>, the handler takes them as they are: no regressor model is
  fit for MTI in the whole run (the only fit of a regressor model, if there is one, is that
  of the inflation history), a successful response returns the supplied values in
  \<open>futureRegressors.mti\<close>, and the frame the engine predicted carried them. For inflation
  the handler has no such branch: whenever the frame has an \<open>inflation\<close> column, a successful
  run has fit a regressor model on the inflation history of the request's location, and
  \<open>futureRegressors.inflation\<close> of the response holds its projection, whatever the request
  supplied.
\<close>

theorem supplied_mti_is_used_verbatim:
  "(demand_frame env data = Some df \<and> has_column df ''mti''
      \<and> py_getitem data ''futureRegressors'' = Inr fr \<and> py_getitem fr ''mti'' = Inr v \<longrightarrow>
        handle_mti env data df periods = ([], Cont [(''mti'', v)])
        \<and> (\<exists>lid. py_getitem data ''locationId'' = Inr lid
              \<and> (filter projection_fit (fst (predict_demand env data)) = []
                   \<or> has_column df ''inflation''
                     \<and> filter projection_fit (fst (predict_demand env data))
                         = [Engine_fit projection_config (inflation_history df lid)]))
        \<and> (snd (predict_demand env data) = Demand_ok r \<longrightarrow>
              dr_future_mti r = v
              \<and> (\<exists>m future rest fc.
                    predict env m \<lparr>fu_ds = future, fu_regressors = (''mti'', v) # rest\<rparr> = Inr fc
                    \<and> dr_forecast r = map forecast_point_of (fc_rows fc))))
   \<and> (demand_frame env data' = Some df' \<and> has_column df' ''inflation''
        \<and> snd (predict_demand env data') = Demand_ok r' \<longrightarrow>
        (\<exists>lid fp periods t vs.
           py_getitem data' ''locationId'' = Inr lid
           \<and> py_get data' ''futurePeriods'' (JInt 90) = Inr fp \<and> as_periods fp = Inr periods
           \<and> predict_regressor env df' ''inflation'' periods lid = (t, Cont vs)
           \<and> Engine_fit projection_config (inflation_history df' lid)
                \<in> set (fst (predict_demand env data'))
           \<and> dr_future_inflation r' = JList (map JFloat vs)))"
proof (intro conjI impI)
  assume a: "demand_frame env data = Some df \<and> has_column df ''mti''
      \<and> py_getitem data ''futureRegressors'' = Inr fr \<and> py_getitem fr ''mti'' = Inr v"
  then have frame: "demand_frame env data = Some df" by simp
  from a have stage: "handle_mti env data df periods = ([], Cont [(''mti'', v)])" for periods
    by (simp add: supplied_mti_step)
  show "handle_mti env data df periods = ([], Cont [(''mti'', v)])" by (rule stage)
  from demand_run_fits [OF frame] obtain h lid mid where
    p: "demand_prelude data = Some (h, lid, mid)" and
    f: "filter projection_fit (fst (predict_demand env data)) = []
        \<or> filter projection_fit (fst (predict_demand env data))
            = filter projection_fit (fst (demand_forecast env data df lid mid))" by blast
  from demand_forecast_fits [of env data df "[(''mti'', v)]" lid mid, OF stage] f
    demand_prelude_SomeD [OF p]
  show "\<exists>lid. py_getitem data ''locationId'' = Inr lid
              \<and> (filter projection_fit (fst (predict_demand env data)) = []
                   \<or> has_column df ''inflation''
                     \<and> filter projection_fit (fst (predict_demand env data))
                         = [Engine_fit projection_config (inflation_history df lid)])"
    by auto
  {
    assume ok: "snd (predict_demand env data) = Demand_ok r"
    from successful_demand_frame [OF frame ok] obtain lid mid t
      where "demand_forecast env data df lid mid = (t, Cont (Demand_ok r))" by blast
    from demand_forecast_ok [OF this] obtain periods mti inflation m future and fc :: forecast
      and t1 t3 where
      h: "handle_mti env data df periods = (t1, Cont mti)" and
      p: "engine_predict env m \<lparr>fu_ds = future, fu_regressors = mti @ inflation\<rparr> = (t3, Cont fc)" and
      r: "dr_forecast r = map forecast_point_of (fc_rows fc)"
         "dr_future_mti r = get_or_empty (mti @ inflation) ''mti''"
      by blast
    from h stage [of periods] have mti: "mti = [(''mti'', v)]" by simp
    with r(2) show "dr_future_mti r = v" by (simp add: get_or_empty_def)
    from engine_predict_ContD [OF p] mti r(1)
    show "\<exists>m future rest fc.
            predict env m \<lparr>fu_ds = future, fu_regressors = (''mti'', v) # rest\<rparr> = Inr fc
            \<and> dr_forecast r = map forecast_point_of (fc_rows fc)"
      by auto
  }
next
  assume b: "demand_frame env data' = Some df' \<and> has_column df' ''inflation''
        \<and> snd (predict_demand env data') = Demand_ok r'"
  then have frame: "demand_frame env data' = Some df'" and col: "has_column df' ''inflation''"
    and ok: "snd (predict_demand env data') = Demand_ok r'" by simp_all
  from successful_demand_run [OF frame ok] obtain h lid mid t3 t4 where
    p: "demand_prelude data' = Some (h, lid, mid)" and
    d: "demand_forecast env data' df' lid mid = (t4, Cont (Demand_ok r'))" and
    t: "fst (predict_demand env data') = t3 @ t4" by blast
  from demand_forecast_resolved [OF d] obtain fp periods mti inflation ta tb tc where
    q: "py_get data' ''futurePeriods'' (JInt 90) = Inr fp" "as_periods fp = Inr periods" and
    m: "handle_mti env data' df' periods = (ta, Cont mti)" and
    i: "handle_inflation env df' periods lid = (tb, Cont inflation)" and
    dm: "demand_model env df' lid mid fp periods (mti @ inflation) = (tc, Cont (Demand_ok r'))" and
    t4: "t4 = ta @ tb @ tc" by blast
  from handle_inflation_projected [OF col i] obtain vs where
    pr: "predict_regressor env df' ''inflation'' periods lid = (tb, Cont vs)" and
    inf: "inflation = [(''inflation'', JList (map JFloat vs))]" by blast
  from predict_regressor_trace [OF pr] obtain rest where
    tb: "tb = Engine_fit projection_config (inflation_history df' lid) # rest" by blast
  from demand_model_ok [OF dm] have "dr_future_inflation r' = get_or_empty (mti @ inflation) ''inflation''"
    by blast
  with handle_mti_keys [OF m] inf have "dr_future_inflation r' = JList (map JFloat vs)"
    by (simp add: get_or_empty_def map_add_def [symmetric] map_add_Some_iff
        split: option.splits)
  with demand_prelude_SomeD [OF p] q pr tb t t4
  show "\<exists>lid fp periods t vs.
           py_getitem data' ''locationId'' = Inr lid
           \<and> py_get data' ''futurePeriods'' (JInt 90) = Inr fp \<and> as_periods fp = Inr periods
           \<and> predict_regressor env df' ''inflation'' periods lid = (t, Cont vs)
           \<and> Engine_fit projection_config (inflation_history df' lid)
                \<in> set (fst (predict_demand env data'))
           \<and> dr_future_inflation r' = JList (map JFloat vs)"
    by auto
qed


lemma inflation_supplied_response:
  "snd (predict_demand (example_env True) inflation_supplied_request)
     = Demand_ok inflation_supplied_result"
  by (simp add: inflation_supplied_request_def inflation_supplied_result_def
      example_demand_forecast_def demand_defs run_defs)

lemma inflation_supplied_demand_frame:
  "demand_frame (example_env True) inflation_supplied_request = Some inflation_supplied_frame"
  by (simp add: demand_frame_def demand_prelude_def inflation_supplied_request_def
      inflation_supplied_frame_def log_request_def run_defs)

theorem supplied_mti_is_used_verbatim_witness:
  "demand_frame (example_env True) mti_supplied_request = Some mti_supplied_frame
   \<and> has_column mti_supplied_frame ''mti''
   \<and> py_getitem mti_supplied_request ''futureRegressors'' = Inr (JObj [(''mti'', JList [JInt 3, JInt 4])])
   \<and> py_getitem (JObj [(''mti'', JList [JInt 3, JInt 4])]) ''mti'' = Inr (JList [JInt 3, JInt 4])
   \<and> snd (predict_demand (example_env True) mti_supplied_request) = Demand_ok mti_supplied_result
   \<and> demand_frame (example_env True) inflation_supplied_request = Some inflation_supplied_frame
   \<and> has_column inflation_supplied_frame ''inflation''
   \<and> snd (predict_demand (example_env True) inflation_supplied_request)
       = Demand_ok inflation_supplied_result
   \<and> handle_mti (example_env True) mti_supplied_request mti_supplied_frame 2
       = ([], Cont [(''mti'', JList [JInt 3, JInt 4])])
   \<and> filter projection_fit (fst (predict_demand (example_env True) mti_supplied_request)) = []
   \<and> dr_future_mti mti_supplied_result = JList [JInt 3, JInt 4]
   \<and> Engine_fit projection_config (inflation_history inflation_supplied_frame (JStr ''L1''))
       \<in> set (fst (predict_demand (example_env True) inflation_supplied_request))"
proof -
  have h1: "has_column mti_supplied_frame ''mti''"
    by (simp add: has_column_def mti_supplied_frame_def)
  have h2: "py_getitem mti_supplied_request ''futureRegressors''
              = Inr (JObj [(''mti'', JList [JInt 3, JInt 4])])"
    by (simp add: mti_supplied_request_def demand_request_def)
  have h3: "py_getitem (JObj [(''mti'', JList [JInt 3, JInt 4])]) ''mti'' = Inr (JList [JInt 3, JInt 4])"
    by simp
  note h4 = mti_supplied_demand_frame
  have h5: "snd (predict_demand (example_env True) mti_supplied_request) = Demand_ok mti_supplied_result"
    by (simp add: mti_supplied_response)
  note h6 = inflation_supplied_demand_frame
  have h7: "has_column inflation_supplied_frame ''inflation''"
    by (simp add: has_column_def inflation_supplied_frame_def)
  note h8 = inflation_supplied_response
  have n: "\<not> has_column mti_supplied_frame ''inflation''"
    by (simp add: has_column_def mti_supplied_frame_def)
  have l: "py_getitem inflation_supplied_request ''locationId'' = Inr (JStr ''L1'')"
    by (simp add: inflation_supplied_request_def demand_request_def)
  note main = supplied_mti_is_used_verbatim
    [of "example_env True" mti_supplied_request mti_supplied_frame
        "JObj [(''mti'', JList [JInt 3, JInt 4])]" "JList [JInt 3, JInt 4]" 2 mti_supplied_result
        inflation_supplied_request inflation_supplied_frame inflation_supplied_result]
  from main h1 h2 h3 h4 h5 have
    a: "handle_mti (example_env True) mti_supplied_request mti_supplied_frame 2
          = ([], Cont [(''mti'', JList [JInt 3, JInt 4])])"
       "dr_future_mti mti_supplied_result = JList [JInt 3, JInt 4]"
    by blast+
  from main h1 h2 h3 h4 n have
    b: "filter projection_fit (fst (predict_demand (example_env True) mti_supplied_request)) = []"
    by blast
  from main h6 h7 h8 l have
    c: "Engine_fit projection_config (inflation_history inflation_supplied_frame (JStr ''L1''))
          \<in> set (fst (predict_demand (example_env True) inflation_supplied_request))"
    by auto
  from a b c h1 h2 h3 h4 h5 h6 h7 h8 show ?thesis by blast
qed

text \<open>
  C2 as stated fails for inflation: the handler has no branch for caller-supplied inflation
  values. For \<open>inflation_supplied_request\<close>, which supplies \<open>[7, 7]\<close>, the run starts with a
  fit, a future frame and a prediction on the inflation history, and the response carries the
  projected \<open>[4, 5]\<close>.
\<close>

theorem supplied_inflation_is_projected:
  "map_option dr_future_inflation
     (demand_result_of (snd (predict_demand (example_env True) inflation_supplied_request)))
     = Some (JList [JFloat 4, JFloat 5])
   \<and> py_getitem inflation_supplied_request ''futureRegressors''
       = Inr (JObj [(''inflation'', JList [JInt 7, JInt 7])])
   \<and> take 3 (fst (predict_demand (example_env True) inflation_supplied_request))
       = inflation_projection_trace"
  by (simp add: inflation_supplied_request_def inflation_projection_trace_def demand_defs run_defs)

lemmas frame_run_defs = demand_frame_def demand_prelude_def supplier_frame_def supplier_prelude_def
  log_request_def run_defs

subsection \<open>Frames of the example requests\<close>



lemma null_demand_request_frame:
  "demand_frame (example_env True) null_demand_request = Some null_demand_frame"
  by (simp add: null_demand_request_def null_demand_frame_def frame_run_defs)

lemma dirty_supplier_request_frame:
  "supplier_frame (example_env True) dirty_supplier_request = Some dirty_supplier_frame"
  by (simp add: dirty_supplier_request_def dirty_supplier_frame_def frame_run_defs)


subsection \<open>The density gate\<close>










subsection \<open>Null and non-numeric values of the target\<close>

text \<open>
  C9. When the target column holds a null or a value that is not numeric, the demand
  operation answers with a client error (400) and the engine is not invoked. The supplier
  operation cleans each of its two series instead: it records a warning (the number of nulls,
  or that there are values that are not numeric), keeps exactly the points whose value is
  numeric, as numbers, and fits the engine on them. (The lead-time series is reached when the
  quality forecast went through.)
\<close>

theorem bad_target_values_policy:
  "(demand_frame env data = Some df \<and> column df ''y'' = Inr y
      \<and> (list_ex is_null y \<or> \<not> list_all (is_numeric env) y) \<longrightarrow>
      predict_demand env data
        = ([], if list_ex is_null y
               then Error_response 400 ''Missing demand values detected''
                      (Null_rows (length (filter is_null y)))
               else Error_response 400 ''Non-numeric demand values detected''
                      (Message ''All demand values must be numeric'')))
   \<and> (supplier_frame env data' = Some df' \<and> column df' ''qualityRating'' = Inr qcol
      \<and> (list_ex is_null qcol \<or> \<not> list_all (is_numeric env) qcol) \<longrightarrow>
      (\<exists>before warnings frame rest.
          clean_series env ''quality'' (df_ds df') qcol = (warnings, Cont frame)
          \<and> warnings \<noteq> []
          \<and> set warnings
              \<subseteq> {Warn_nulls ''quality'' (length (filter is_null qcol)), Warn_non_numeric ''quality''}
          \<and> list_all (is_numeric env) (ff_y frame)
          \<and> map (\<lambda>r. (fst r, to_numeric env (snd r))) (zip (ff_ds frame) (ff_y frame))
              = map (\<lambda>r. (fst r, to_numeric env (snd r)))
                  (filter (\<lambda>r. is_numeric env (snd r)) (zip (df_ds df') qcol))
          \<and> fst (predict_supplier_performance env data')
              = before @ warnings @ Engine_fit quality_config frame # rest))
   \<and> (supplier_frame env data'' = Some df'' \<and> column df'' ''leadTimeReliability'' = Inr lcol
      \<and> (list_ex is_null lcol \<or> \<not> list_all (is_numeric env) lcol)
      \<and> column df'' ''qualityRating'' = Inr qcol''
      \<and> clean_series env ''quality'' (df_ds df'') qcol'' = (wq, Cont qframe)
      \<and> py_get data'' ''futurePeriods'' (JInt 90) = Inr fp \<and> as_periods fp = Inr periods
      \<and> forecast_series env quality_config qframe periods = (tq, Cont qf) \<longrightarrow>
      (\<exists>before warnings frame rest.
          clean_series env ''lead time'' (df_ds df'') lcol = (warnings, Cont frame)
          \<and> warnings \<noteq> []
          \<and> set warnings
              \<subseteq> {Warn_nulls ''lead time'' (length (filter is_null lcol)),
                  Warn_non_numeric ''lead time''}
          \<and> list_all (is_numeric env) (ff_y frame)
          \<and> map (\<lambda>r. (fst r, to_numeric env (snd r))) (zip (ff_ds frame) (ff_y frame))
              = map (\<lambda>r. (fst r, to_numeric env (snd r)))
                  (filter (\<lambda>r. is_numeric env (snd r)) (zip (df_ds df'') lcol))
          \<and> fst (predict_supplier_performance env data'')
              = before @ warnings @ Engine_fit lead_time_config frame # rest))"
proof (intro conjI impI)
  assume a: "demand_frame env data = Some df \<and> column df ''y'' = Inr y
      \<and> (list_ex is_null y \<or> \<not> list_all (is_numeric env) y)"
  from a demand_run_via_frame [of env data df] obtain h lid mid where
    r: "predict_demand env data
               = respond
                   (catch
                      (seq (check_demand_values env df)
                        (seq (check_density_demand df)
                          (seq (log_gaps_demand env df) (demand_forecast env data df lid mid))))
                      data_processing_handler)
                   fatal_handler" by blast
  from a show "predict_demand env data
        = ([], if list_ex is_null y
               then Error_response 400 ''Missing demand values detected''
                      (Null_rows (length (filter is_null y)))
               else Error_response 400 ''Non-numeric demand values detected''
                      (Message ''All demand values must be numeric''))"
    by (auto simp: r check_demand_values_def comp_defs)
next
  assume b: "supplier_frame env data' = Some df' \<and> column df' ''qualityRating'' = Inr qcol
      \<and> (list_ex is_null qcol \<or> \<not> list_all (is_numeric env) qcol)"
  then have frame: "supplier_frame env data' = Some df'"
    and col: "column df' ''qualityRating'' = Inr qcol"
    and bad: "list_ex is_null qcol \<or> \<not> list_all (is_numeric env) qcol" by simp_all
  from supplier_run_via_frame [OF frame] col have len: "length qcol = length (df_ds df')" by auto
  from clean_series_warns [OF len bad, of "''quality''"] obtain warnings frame where
    c: "clean_series env ''quality'' (df_ds df') qcol = (warnings, Cont frame)"
       "warnings \<noteq> []"
       "set warnings
          \<subseteq> {Warn_nulls ''quality'' (length (filter is_null qcol)), Warn_non_numeric ''quality''}"
       "list_all (is_numeric env) (ff_y frame)"
       "map (\<lambda>r. (fst r, to_numeric env (snd r))) (zip (ff_ds frame) (ff_y frame))
              = map (\<lambda>r. (fst r, to_numeric env (snd r)))
                  (filter (\<lambda>r. is_numeric env (snd r)) (zip (df_ds df') qcol))"
    by blast
  from supplier_trace_via_frame [OF frame] obtain fp periods sid gaps where
    t: "fst (predict_supplier_performance env data')
               = (if below_threshold (density df') then [Warn_low_density (density df')] else [])
                 @ gaps @ fst (supplier_forecast env df' fp periods sid)" by blast
  from supplier_forecast_quality_trace [OF col c(1), of fp periods sid] obtain rest where
    "fst (supplier_forecast env df' fp periods sid) = warnings @ Engine_fit quality_config frame # rest"
    by blast
  with t have "fst (predict_supplier_performance env data')
      = ((if below_threshold (density df') then [Warn_low_density (density df')] else []) @ gaps)
        @ warnings @ Engine_fit quality_config frame # rest"
    by simp
  with c show "\<exists>before warnings frame rest.
          clean_series env ''quality'' (df_ds df') qcol = (warnings, Cont frame)
          \<and> warnings \<noteq> []
          \<and> set warnings
              \<subseteq> {Warn_nulls ''quality'' (length (filter is_null qcol)), Warn_non_numeric ''quality''}
          \<and> list_all (is_numeric env) (ff_y frame)
          \<and> map (\<lambda>r. (fst r, to_numeric env (snd r))) (zip (ff_ds frame) (ff_y frame))
              = map (\<lambda>r. (fst r, to_numeric env (snd r)))
                  (filter (\<lambda>r. is_numeric env (snd r)) (zip (df_ds df') qcol))
          \<and> fst (predict_supplier_performance env data')
              = before @ warnings @ Engine_fit quality_config frame # rest"
    by blast
next
  assume b: "supplier_frame env data'' = Some df'' \<and> column df'' ''leadTimeReliability'' = Inr lcol
      \<and> (list_ex is_null lcol \<or> \<not> list_all (is_numeric env) lcol)
      \<and> column df'' ''qualityRating'' = Inr qcol''
      \<and> clean_series env ''quality'' (df_ds df'') qcol'' = (wq, Cont qframe)
      \<and> py_get data'' ''futurePeriods'' (JInt 90) = Inr fp \<and> as_periods fp = Inr periods
      \<and> forecast_series env quality_config qframe periods = (tq, Cont qf)"
  then have frame: "supplier_frame env data'' = Some df''"
    and col: "column df'' ''leadTimeReliability'' = Inr lcol"
    and bad: "list_ex is_null lcol \<or> \<not> list_all (is_numeric env) lcol"
    and q: "column df'' ''qualityRating'' = Inr qcol''"
       "clean_series env ''quality'' (df_ds df'') qcol'' = (wq, Cont qframe)"
       "forecast_series env quality_config qframe periods = (tq, Cont qf)"
    and fp: "py_get data'' ''futurePeriods'' (JInt 90) = Inr fp" "as_periods fp = Inr periods"
    by simp_all
  from supplier_run_via_frame [OF frame] col have len: "length lcol = length (df_ds df'')" by auto
  from clean_series_warns [OF len bad, of "''lead time''"] obtain warnings frame where
    c: "clean_series env ''lead time'' (df_ds df'') lcol = (warnings, Cont frame)"
       "warnings \<noteq> []"
       "set warnings
          \<subseteq> {Warn_nulls ''lead time'' (length (filter is_null lcol)), Warn_non_numeric ''lead time''}"
       "list_all (is_numeric env) (ff_y frame)"
       "map (\<lambda>r. (fst r, to_numeric env (snd r))) (zip (ff_ds frame) (ff_y frame))
              = map (\<lambda>r. (fst r, to_numeric env (snd r)))
                  (filter (\<lambda>r. is_numeric env (snd r)) (zip (df_ds df'') lcol))"
    by blast
  from supplier_trace_via_frame [OF frame] obtain h fp' periods' sid gaps where
    p: "supplier_prelude data'' = Some (h, fp', sid)" "as_periods fp' = Inr periods'" and
    t: "fst (predict_supplier_performance env data'')
               = (if below_threshold (density df'') then [Warn_low_density (density df'')] else [])
                 @ gaps @ fst (supplier_forecast env df'' fp' periods' sid)" by blast
  from supplier_prelude_SomeD [OF p(1)] fp p(2) have same: "fp' = fp" "periods' = periods" by auto
  from supplier_forecast_lead_time_trace [OF q(1) q(2) q(3) col c(1), of fp sid] obtain rest where
    "fst (supplier_forecast env df'' fp periods sid)
       = wq @ tq @ warnings @ Engine_fit lead_time_config frame # rest"
    by blast
  with t same have "fst (predict_supplier_performance env data'')
      = ((if below_threshold (density df'') then [Warn_low_density (density df'')] else [])
          @ gaps @ wq @ tq)
        @ warnings @ Engine_fit lead_time_config frame # rest"
    by simp
  with c show "\<exists>before warnings frame rest.
          clean_series env ''lead time'' (df_ds df'') lcol = (warnings, Cont frame)
          \<and> warnings \<noteq> []
          \<and> set warnings
              \<subseteq> {Warn_nulls ''lead time'' (length (filter is_null lcol)),
                  Warn_non_numeric ''lead time''}
          \<and> list_all (is_numeric env) (ff_y frame)
          \<and> map (\<lambda>r. (fst r, to_numeric env (snd r))) (zip (ff_ds frame) (ff_y frame))
              = map (\<lambda>r. (fst r, to_numeric env (snd r)))
                  (filter (\<lambda>r. is_numeric env (snd r)) (zip (df_ds df'') lcol))
          \<and> fst (predict_supplier_performance env data'')
              = before @ warnings @ Engine_fit lead_time_config frame # rest"
    by blast
qed


lemma dirty_supplier_steps:
  "column dirty_supplier_frame ''qualityRating''
     = Inr [Some (JFloat (8 / 10)), Some JNull, Some (JStr ''n/a''), Some (JFloat (9 / 10))]"
  "column dirty_supplier_frame ''leadTimeReliability''
     = Inr [Some (JFloat (1 / 2)), Some (JFloat (1 / 2)), Some JNull, Some (JFloat (1 / 2))]"
  "clean_series (example_env True) ''quality'' (df_ds dirty_supplier_frame)
       [Some (JFloat (8 / 10)), Some JNull, Some (JStr ''n/a''), Some (JFloat (9 / 10))]
     = ([Warn_nulls ''quality'' 1, Warn_non_numeric ''quality''], Cont dirty_quality_frame)"
  "clean_series (example_env True) ''lead time'' (df_ds dirty_supplier_frame)
       [Some (JFloat (1 / 2)), Some (JFloat (1 / 2)), Some JNull, Some (JFloat (1 / 2))]
     = ([Warn_nulls ''lead time'' 1], Cont dirty_lead_time_frame)"
  by (simp_all add: dirty_supplier_frame_def dirty_quality_frame_def dirty_lead_time_frame_def
      clean_series_def run_defs)

lemma dirty_quality_forecast:
  "\<exists>tq qf. forecast_series (example_env True) quality_config dirty_quality_frame 2 = (tq, Cont qf)"
  by (simp add: dirty_quality_frame_def run_defs)

lemma dirty_supplier_status:
  "status_of (snd (predict_supplier_performance (example_env True) dirty_supplier_request)) = 200"
  by (simp add: dirty_supplier_request_def supplier_defs run_defs)

theorem bad_target_values_policy_witness:
  "demand_frame (example_env True) null_demand_request = Some null_demand_frame
   \<and> column null_demand_frame ''y'' = Inr [Some (JInt 10), Some JNull]
   \<and> list_ex is_null [Some (JInt 10), Some JNull]
   \<and> predict_demand (example_env True) null_demand_request
       = ([], Error_response 400 ''Missing demand values detected'' (Null_rows 1))
   \<and> supplier_frame (example_env True) dirty_supplier_request = Some dirty_supplier_frame
   \<and> list_ex is_null [Some (JFloat (8 / 10)), Some JNull, Some (JStr ''n/a''), Some (JFloat (9 / 10))]
   \<and> list_ex is_null [Some (JFloat (1 / 2)), Some (JFloat (1 / 2)), Some JNull, Some (JFloat (1 / 2))]
   \<and> (\<exists>before rest.
         fst (predict_supplier_performance (example_env True) dirty_supplier_request)
           = before @ [Warn_nulls ''quality'' 1, Warn_non_numeric ''quality'']
             @ Engine_fit quality_config dirty_quality_frame # rest)
   \<and> (\<exists>before rest.
         fst (predict_supplier_performance (example_env True) dirty_supplier_request)
           = before @ [Warn_nulls ''lead time'' 1]
             @ Engine_fit lead_time_config dirty_lead_time_frame # rest)
   \<and> status_of (snd (predict_supplier_performance (example_env True) dirty_supplier_request)) = 200"
proof -
  let ?y = "[Some (JInt 10), Some JNull]"
  let ?q = "[Some (JFloat (8 / 10)), Some JNull, Some (JStr ''n/a''), Some (JFloat (9 / 10))]"
  let ?l = "[Some (JFloat (1 / 2)), Some (JFloat (1 / 2)), Some JNull, Some (JFloat (1 / 2))]"
  note h1 = null_demand_request_frame
  have h2: "column null_demand_frame ''y'' = Inr ?y"
    by (simp add: null_demand_frame_def column_def)
  have h3: "list_ex is_null ?y" "list_ex is_null ?q" "list_ex is_null ?l" by simp_all
  note h4 = dirty_supplier_request_frame
  from dirty_quality_forecast obtain tq qf where
    h5: "forecast_series (example_env True) quality_config dirty_quality_frame 2 = (tq, Cont qf)"
    by blast
  have h6: "py_get dirty_supplier_request ''futurePeriods'' (JInt 90) = Inr (JInt 2)"
    "as_periods (JInt 2) = Inr 2"
    by (simp_all add: dirty_supplier_request_def supplier_request_of_def)
  note main = bad_target_values_policy
    [of "example_env True" null_demand_request null_demand_frame ?y
        dirty_supplier_request dirty_supplier_frame ?q
        dirty_supplier_request dirty_supplier_frame ?l ?q
        "[Warn_nulls ''quality'' 1, Warn_non_numeric ''quality'']" dirty_quality_frame
        "JInt 2" 2 tq qf]
  from main h1 h2 h3(1) have
    a: "predict_demand (example_env True) null_demand_request
       = ([], Error_response 400 ''Missing demand values detected'' (Null_rows 1))"
    by simp
  from main h4 dirty_supplier_steps(1) h3(2) obtain before warnings frame rest where
    "clean_series (example_env True) ''quality'' (df_ds dirty_supplier_frame) ?q
       = (warnings, Cont frame)"
    "fst (predict_supplier_performance (example_env True) dirty_supplier_request)
       = before @ warnings @ Engine_fit quality_config frame # rest"
    by blast
  with dirty_supplier_steps(3) have
    b: "\<exists>before rest.
         fst (predict_supplier_performance (example_env True) dirty_supplier_request)
           = before @ [Warn_nulls ''quality'' 1, Warn_non_numeric ''quality'']
             @ Engine_fit quality_config dirty_quality_frame # rest"
    by auto
  from main h4 dirty_supplier_steps(1,2,3) h3(3) h5 h6 obtain before warnings frame rest where
    "clean_series (example_env True) ''lead time'' (df_ds dirty_supplier_frame) ?l
       = (warnings, Cont frame)"
    "fst (predict_supplier_performance (example_env True) dirty_supplier_request)
       = before @ warnings @ Engine_fit lead_time_config frame # rest"
    by blast
  with dirty_supplier_steps(4) have
    c: "\<exists>before rest.
         fst (predict_supplier_performance (example_env True) dirty_supplier_request)
           = before @ [Warn_nulls ''lead time'' 1]
             @ Engine_fit lead_time_config dirty_lead_time_frame # rest"
    by auto
  from a b c h1 h2 h3 h4 dirty_supplier_status show ?thesis by blast
qed

end
